theory Spec2Isabelle
  imports Main
begin

section \<open>The remote session of github-vsc\<close>

text \<open>
  The file \<^verbatim>\<open>src/unnamed/part_001\<close> holds the class \<^verbatim>\<open>RemoteSession\<close> in three
  revisions. This theory embeds two of them:
  \<^item> the revision at lines 292-905, which has \<^verbatim>\<open>disconnectRunner\<close>, the
    \<^verbatim>\<open>RunnerError\<close> kinds and port forwarding; its definitions carry the source's
    names;
  \<^item> the revision at lines 906-1398, which has the statuses \<^verbatim>\<open>SessionTimeout\<close>
    and \<^verbatim>\<open>SessionTerminated\<close>; its definitions carry the suffix \<open>_prev\<close>.

  The revision at lines 16-291 is not embedded.

  An object of the class is a record; a method or an event listener is a function from
  the record to the updated record. Everything the object does to the outside (socket
  calls, callbacks into the user interface, timers, prompts) is appended to the field
  \<open>trace\<close>, in the order of the source. Calls to the logger are left out. What the
  outside answers (the user's answer to a prompt, the socket created by \<^verbatim>\<open>io\<close>, the
  identifier made by \<^verbatim>\<open>nanoid\<close>, the clock read by \<^verbatim>\<open>dayjs()\<close>) is an argument
  of the function that asks for it.

  Every listener is a step of its own. A call of \<^verbatim>\<open>disconnect()\<close> on a socket is the
  effect \<open>SocketDisconnect\<close> and no more: the transport library may run the
  disconnect listener of a connected socket before \<^verbatim>\<open>disconnect()\<close> returns, and the
  embedding does not. Such a run would add status updates to the trace and rewrite
  status data that the method closing the socket writes again right after; the
  properties below are about the state after a step, about effects that are present,
  and about the effects on the transport and the store, which it leaves alone.
\<close>

subsection \<open>Data\<close>

text \<open>
  The enumerations \<^verbatim>\<open>RunnerStatus\<close> and \<^verbatim>\<open>RunnerError\<close> are declared in
  \<^verbatim>\<open>./types\<close>, which is not among the sources: the members are those the two
  revisions use. \<^verbatim>\<open>RunnerClientStatus\<close> comes from the runner's core package.
\<close>

datatype RunnerStatus =
  Initial | Connecting | Connected | Disconnected | SessionStarted
  | SessionTimeout | SessionTerminated

datatype RunnerError =
  Error_Timeout | Error_SessionTerminated | Error_SessionIdDoesNotMatch

datatype RunnerClientStatus = Offline | Online

datatype RunnerServerType = GitHubActions | OtherServerType

text \<open>
  \<^verbatim>\<open>SessionData\<close> (declared in \<^verbatim>\<open>core/types/foundation\<close>): the fields the class reads.
  An absent field (\<^verbatim>\<open>undefined\<close>) is \<open>None\<close>. The reference \<^verbatim>\<open>githubRef\<close> is the
  key of the persisted store and stays opaque.
\<close>

record SessionData =
  sessionId :: "string option"
  serverAddress :: "string option"
  githubRef :: "string option"
  os :: "string option"
  defaultShell :: "string option"

record RunnerStatusData =
  statusSessionId :: "string option"
  runnerStatus :: RunnerStatus
  runnerError :: "RunnerError option"
  runnerClientStatus :: RunnerClientStatus
  runnerClientOS :: "string option"

text \<open>
  The shell of a terminal: a path, or the value of \<^verbatim>\<open>getDefaultShell(os)\<close>, a helper
  of \<^verbatim>\<open>core/utils/shell\<close> that is not among the sources and is kept symbolic.
\<close>

datatype shell_file = ShellPath string | GetDefaultShell "string option"

text \<open>
  \<^verbatim>\<open>TerminalInstance\<close>: the fields \<^verbatim>\<open>id\<close> and \<^verbatim>\<open>file\<close> are \<open>tid\<close> and
  \<open>shellFile\<close> here; \<^verbatim>\<open>activateTime\<close> is the
  instant of the \<^verbatim>\<open>Dayjs\<close> value in milliseconds.
\<close>

record TerminalInstance =
  tid :: string
  shellFile :: shell_file
  cols :: nat
  rows :: nat
  activateTime :: int
  restoredFromRemote :: bool

text \<open>What the remote peer sends in a snapshot: \<^verbatim>\<open>TerminalOptions\<close>.\<close>

record TerminalOptions =
  opt_id :: string
  opt_file :: shell_file
  opt_cols :: nat
  opt_rows :: nat

text \<open>Messages sent on the socket (\<^verbatim>\<open>VscClientEvent\<close>), with their arguments.\<close>

datatype VscClientEvent =
  SetType "string option"
  | ActivateTerminal TerminalInstance
  | CheckRunnerStatus
  | FetchCurrentTerminals
  | FetchCurrentPortForwarding
  | SetPortForwarding "nat option"
  | TerminateSession

text \<open>
  The payload of \<^verbatim>\<open>onUpdate\<close>: the status data, a type and a message. The table
  \<^verbatim>\<open>runnerErrorMesage\<close> (of \<^verbatim>\<open>./consts\<close>) and the helper \<^verbatim>\<open>conditional\<close> (of
  \<^verbatim>\<open>utils/object\<close>) are not among the sources: a message built with them is kept
  symbolic.
\<close>

datatype message_type = TypeMessage | TypeError

datatype message_text =
  Text string
  | RunnerErrorMesage RunnerError
  | Conditional string

record RemoteSessionDataPayload =
  payload_data :: RunnerStatusData
  payload_type :: message_type
  payload_message :: "message_text option"

text \<open>
  The effects on the outside. A socket is a handle (a number): \<^verbatim>\<open>io(address)\<close>
  returns a new one. A timer is a handle as well; the connection timer of a call of
  \<^verbatim>\<open>connectTo\<close> has the handle of the socket that call created.
\<close>

datatype effect =
  OnUpdate RemoteSessionDataPayload
  | OnPortForwardingUpdate "nat option"
  | OnDisconnected
  | Io nat "string option"
  | SocketEmit nat VscClientEvent
  | SocketDisconnect nat
  | SocketOffAny nat
  | SocketOnceSessionStarted nat
  | RegisterSocketEventListeners nat
  | RegisterFSEventHandlers nat
  | FileSystemRemoveSocket
  | SetTimeout nat
  | ClearTimeout nat
  | ClearWorkflowTimeout nat
  | Resolve nat bool
  | ShowInformationMessage "string option" "string option"
  | ShowWarningMessage string
  | ShowTerminateWarning "string option"
  | SetSessionData "string option" "SessionData option"
  | PostTerminals "TerminalInstance list"
  | DisposePanel
  | CreateWebviewPanel
  | ReopenFolder
  | RevealInExplorer
  | OpenControlPanel
  | SetupRunnerClientRepo
  | DispatchRunnerClientWorkflow "string option" "string option" "string option" "string option"
  | LaunchRunnerClient "string option" "string option" "string option"

text \<open>
  The object. \<open>priv_data\<close>, \<open>priv_terminals\<close>, \<open>priv_panel\<close> and
  \<open>priv_workflowDispatchTimeout\<close> are the private fields \<^verbatim>\<open>_data\<close>, \<^verbatim>\<open>_terminals\<close>,
  \<^verbatim>\<open>_panel\<close> (present or not) and \<^verbatim>\<open>_workflowDispatchTimeout\<close>. The last four
  fields are the outside as far as the class depends on it: the persisted store of
  \<^verbatim>\<open>getSessionData\<close> and \<^verbatim>\<open>setSessionData\<close>, the connection timers and the
  workflow timers that are armed, and the effects so far.
\<close>

record RemoteSession =
  priv_data :: "SessionData option"
  priv_terminals :: "TerminalInstance list"
  priv_panel :: bool
  priv_workflowDispatchTimeout :: "nat option"
  runnerStatusData :: RunnerStatusData
  socket :: "nat option"
  persisted :: "string option \<rightharpoonup> SessionData"
  connectTimers :: "nat list"
  workflowTimers :: "nat list"
  trace :: "effect list"

subsection \<open>Accessors\<close>

text \<open>JavaScript's truth of an optional string: absent and empty are both false.\<close>

definition truthy :: "string option \<Rightarrow> bool" where
  "truthy x = (case x of None \<Rightarrow> False | Some s \<Rightarrow> s \<noteq> [])"

definition emit :: "effect \<Rightarrow> RemoteSession \<Rightarrow> RemoteSession" where
  "emit e st = st\<lparr>trace := trace st @ [e]\<rparr>"

definition emits :: "effect list \<Rightarrow> RemoteSession \<Rightarrow> RemoteSession" where
  "emits es st = st\<lparr>trace := trace st @ es\<rparr>"

text \<open>\<^verbatim>\<open>this.socket?.emit(e)\<close>: nothing happens when no socket is held.\<close>

definition socket_emit :: "VscClientEvent \<Rightarrow> RemoteSession \<Rightarrow> RemoteSession" where
  "socket_emit e st = (case socket st of None \<Rightarrow> st | Some s \<Rightarrow> emit (SocketEmit s e) st)"

definition get_sessionId :: "RemoteSession \<Rightarrow> string option" where
  "get_sessionId st = (case priv_data st of None \<Rightarrow> None | Some d \<Rightarrow> sessionId d)"

definition set_sessionId :: "string option \<Rightarrow> RemoteSession \<Rightarrow> RemoteSession" where
  "set_sessionId sid st =
     (if \<not> truthy sid then st\<lparr>priv_data := None\<rparr>
      else case priv_data st of
             None \<Rightarrow> st
           | Some d \<Rightarrow> st\<lparr>priv_data := Some (d\<lparr>sessionId := sid\<rparr>)\<rparr>)"

definition get_runnerStatus :: "RemoteSession \<Rightarrow> RunnerStatus" where
  "get_runnerStatus st = runnerStatus (runnerStatusData st)"

definition get_runnerClientStatus :: "RemoteSession \<Rightarrow> RunnerClientStatus" where
  "get_runnerClientStatus st = runnerClientStatus (runnerStatusData st)"

text \<open>
  Modelled from the spec: the persisted-session store, \<^verbatim>\<open>get(refKey) -> Session?\<close> and
  \<^verbatim>\<open>set(refKey, Session?)\<close>; the functions \<^verbatim>\<open>getSessionData\<close> and \<^verbatim>\<open>setSessionData\<close>
  of \<^verbatim>\<open>utils/global-state\<close> are not among the sources.
\<close>

definition getSessionData :: "RemoteSession \<Rightarrow> string option \<Rightarrow> SessionData option" where
  "getSessionData st ref = persisted st ref"

definition setSessionData :: "string option \<Rightarrow> SessionData option \<Rightarrow> RemoteSession \<Rightarrow> RemoteSession" where
  "setSessionData ref d st = emit (SetSessionData ref d) (st\<lparr>persisted := (persisted st)(ref := d)\<rparr>)"

subsection \<open>Status data and its delivery (lines 366-424 and 445-516)\<close>

definition notify ::
  "RunnerStatusData \<Rightarrow> message_type \<Rightarrow> message_text option \<Rightarrow> effect" where
  "notify d t m = OnUpdate \<lparr>payload_data = d, payload_type = t, payload_message = m\<rparr>"

text \<open>
  \<^verbatim>\<open>deliverStatusData\<close>: \<open>statusUpdates\<close> is the list of its calls of \<^verbatim>\<open>onUpdate\<close>,
  one \<^verbatim>\<open>if\<close> after the other, in the order of the source.
  \<^verbatim>\<open>if (data.runnerError)\<close> is taken when an error is set (the enumeration's members
  are taken to be non-empty strings, as those of \<^verbatim>\<open>WebviewActionEnum\<close> are).
\<close>

definition statusUpdates :: "RemoteSession \<Rightarrow> effect list" where
  "statusUpdates st =
     (let d = runnerStatusData st in
       ((if runnerStatus d = Connected
         then [notify d TypeMessage (Some (Text (''Runner conncted. '' @
                 (if truthy (get_sessionId st)
                  then ''Resuming session '' @ the (get_sessionId st)
                  else ''Reuqesting new session'') @ ''...'')))]
         else []) @
        (if runnerStatus d = Connecting then [notify d TypeMessage None] else []) @
        (if runnerStatus d = Initial
         then [notify d TypeMessage None] @
              (case runnerError d of
                 None \<Rightarrow> []
               | Some e \<Rightarrow> [notify d TypeError (Some (RunnerErrorMesage e))]) @
              (if runnerError d = Some Error_Timeout
               then [notify d TypeError
                       (Some (Text ''Connection timeout. Please try another runner.''))]
               else []) @
              (if runnerError d = Some Error_SessionTerminated
               then [notify d TypeError
                       (Some (Text ''The session is not available in the runner or it has been terminated, please ensure you chose the correct runner server or create a new session if needed.''))]
               else []) @
              (if runnerError d = Some Error_SessionIdDoesNotMatch
               then [notify d TypeError
                       (Some (Text ''The registered session ID for this client doesn't match. Please check your input.''))]
               else [])
         else []) @
        (if runnerStatus d = Disconnected
         then [notify d TypeError
                 (Some (Text ''Runner server disconnected, this may infer an upgrade/maintenance. Trying to re-connect...''))]
         else []) @
        (if runnerStatus d = SessionStarted
         then [notify d TypeMessage
                 (Some (Conditional
                    (if runnerClientStatus d = Offline
                     then ''Session started. Waiting for runner client response...''
                     else ''Runner client connected. Happy hacking!'')))]
         else [])))"

definition deliverStatusData :: "RemoteSession \<Rightarrow> RemoteSession" where
  "deliverStatusData st = emits (statusUpdates st) st"

text \<open>
  \<^verbatim>\<open>setPartialRunnerStatusData(partial)\<close>: the partial object is the function that
  overwrites the fields it lists.
\<close>

definition setPartialRunnerStatusData ::
  "(RunnerStatusData \<Rightarrow> RunnerStatusData) \<Rightarrow> RemoteSession \<Rightarrow> RemoteSession" where
  "setPartialRunnerStatusData partial st =
     deliverStatusData (st\<lparr>runnerStatusData := partial (runnerStatusData st)\<rparr>)"

definition set_runnerStatus :: "RunnerStatus \<Rightarrow> RemoteSession \<Rightarrow> RemoteSession" where
  "set_runnerStatus rs st = setPartialRunnerStatusData (\<lambda>d. d\<lparr>runnerStatus := rs\<rparr>) st"

definition resetRunnerStatus ::
  "RunnerStatus \<Rightarrow> RunnerError option \<Rightarrow> RemoteSession \<Rightarrow> RemoteSession" where
  "resetRunnerStatus rs err st =
     setPartialRunnerStatusData
       (\<lambda>d. d\<lparr>statusSessionId := None, runnerStatus := rs, runnerError := err,
               runnerClientStatus := Offline, runnerClientOS := None\<rparr>) st"

subsection \<open>The terminals and their panel (lines 391-399, 820-826, 865-904)\<close>

text \<open>
  \<^verbatim>\<open>revealPanel\<close> creates the panel when there is none; showing a hidden panel
  again is not traced. Disposing of the panel runs its \<^verbatim>\<open>onDidDispose\<close> listener,
  which forgets it (the revision at 906-1398 forgets it in \<^verbatim>\<open>setupPanelIfNeeded\<close>
  itself). The text of these methods and of the \<^verbatim>\<open>sessionId\<close> accessors is the same
  in both revisions, and one definition serves both.
\<close>

definition revealPanel :: "RemoteSession \<Rightarrow> RemoteSession" where
  "revealPanel st = (if priv_panel st then st else emit CreateWebviewPanel (st\<lparr>priv_panel := True\<rparr>))"

definition setupPanelIfNeeded :: "RemoteSession \<Rightarrow> RemoteSession" where
  "setupPanelIfNeeded st =
     (if priv_terminals st = []
      then (if priv_panel st then emit DisposePanel (st\<lparr>priv_panel := False\<rparr>) else st)
      else revealPanel st)"

definition postTerminalsToWebview :: "RemoteSession \<Rightarrow> RemoteSession" where
  "postTerminalsToWebview st =
     (if priv_panel st then emit (PostTerminals (priv_terminals st)) st else st)"

definition set_terminals :: "TerminalInstance list \<Rightarrow> RemoteSession \<Rightarrow> RemoteSession" where
  "set_terminals ts st = postTerminalsToWebview (setupPanelIfNeeded (st\<lparr>priv_terminals := ts\<rparr>))"

subsection \<open>The transport's disconnect event\<close>

text \<open>Lines 681-685: the listener of \<^verbatim>\<open>'disconnect'\<close>.\<close>

definition on_disconnect :: "RemoteSession \<Rightarrow> RemoteSession" where
  "on_disconnect st = resetRunnerStatus Disconnected None st"

subsection \<open>Launching the runner client (lines 534-592)\<close>

text \<open>
  \<^verbatim>\<open>clearWorkflowDispatchTimeoutIfNeeded\<close> cancels the timer whose handle the object
  holds; the field keeps the handle.
\<close>

definition clearWorkflowDispatchTimeoutIfNeeded :: "RemoteSession \<Rightarrow> RemoteSession" where
  "clearWorkflowDispatchTimeoutIfNeeded st =
     (case priv_workflowDispatchTimeout st of
        None \<Rightarrow> st
      | Some t \<Rightarrow> emit (ClearWorkflowTimeout t) (st\<lparr>workflowTimers := removeAll t (workflowTimers st)\<rparr>))"

definition postNoDataMessage :: "RemoteSession \<Rightarrow> RemoteSession" where
  "postNoDataMessage st =
     emit (notify (runnerStatusData st) TypeError
             (Some (Text ''No sufficient data to launch runner client, please check your inputs.''))) st"

text \<open>
  The table \<^verbatim>\<open>allRunners\<close> (of \<^verbatim>\<open>core/types/session\<close>) is not among the sources and
  is an argument: the pairs of address and type, in the table's order.
\<close>

definition runnerTypeOf ::
  "(string \<times> RunnerServerType) list \<Rightarrow> string option \<Rightarrow> RunnerServerType option" where
  "runnerTypeOf allRunners address =
     (case address of None \<Rightarrow> None | Some a \<Rightarrow> map_of allRunners a)"

definition data_serverAddress :: "RemoteSession \<Rightarrow> string option" where
  "data_serverAddress st = (case priv_data st of None \<Rightarrow> None | Some d \<Rightarrow> serverAddress d)"

text \<open>
  \<^verbatim>\<open>launchRunnerClient\<close> up to its \<^verbatim>\<open>await\<close>: the call of \<^verbatim>\<open>setupRunnerClientRepo\<close>
  is the effect \<open>SetupRunnerClientRepo\<close>. What follows the \<^verbatim>\<open>await\<close> is
  \<open>launchRunnerClient_resume\<close>, with the repository the call returned and the data
  read before it.
\<close>

definition launchRunnerClient ::
  "(string \<times> RunnerServerType) list \<Rightarrow> RemoteSession \<Rightarrow> RemoteSession" where
  "launchRunnerClient allRunners st =
     (if runnerTypeOf allRunners (data_serverAddress st) \<noteq> Some GitHubActions then st
      else case priv_data st of
             None \<Rightarrow> postNoDataMessage st
           | Some d \<Rightarrow>
               if githubRef d = None \<or> \<not> truthy (os d) \<or> \<not> truthy (serverAddress d)
                  \<or> \<not> truthy (sessionId d)
               then postNoDataMessage st
               else emit SetupRunnerClientRepo (clearWorkflowDispatchTimeoutIfNeeded st))"

definition launchRunnerClient_resume ::
  "(string \<times> string) option \<Rightarrow> SessionData \<Rightarrow> RemoteSession \<Rightarrow> RemoteSession" where
  "launchRunnerClient_resume ownerRepo d st =
     (case ownerRepo of
        None \<Rightarrow> st
      | Some _ \<Rightarrow> emit (DispatchRunnerClientWorkflow (serverAddress d) (os d) (sessionId d) (githubRef d)) st)"

text \<open>
  Modelled from the spec: the provisioning timeout. The function
  \<^verbatim>\<open>dispatchRunnerClientWorkflow\<close> of \<^verbatim>\<open>./launch-runner\<close> is not among the sources; it
  is taken to arm one timer and to hand its handle to the callback of line 590, which
  stores it.
\<close>

definition set_workflowDispatchTimeout :: "nat \<Rightarrow> RemoteSession \<Rightarrow> RemoteSession" where
  "set_workflowDispatchTimeout t st =
     st\<lparr>priv_workflowDispatchTimeout := Some t, workflowTimers := workflowTimers st @ [t]\<rparr>"

definition retrieveRunnerInfo :: "RemoteSession \<Rightarrow> RemoteSession" where
  "retrieveRunnerInfo st = socket_emit CheckRunnerStatus st"

subsection \<open>Session control (lines 594-723)\<close>

text \<open>\<^verbatim>\<open>disconnectRunner(error?)\<close>, lines 694-704.\<close>

definition disconnectRunner :: "RunnerError option \<Rightarrow> RemoteSession \<Rightarrow> RemoteSession" where
  "disconnectRunner err st =
     (let st1 = clearWorkflowDispatchTimeoutIfNeeded st;
          st2 = (case socket st1 of
                   None \<Rightarrow> st1
                 | Some s \<Rightarrow> emits [SocketOffAny s, SocketDisconnect s] st1);
          st3 = emit FileSystemRemoveSocket st2;
          st4 = st3\<lparr>priv_data := None\<rparr>;
          st5 = set_terminals [] st4;
          st6 = st5\<lparr>socket := None\<rparr>;
          st7 = resetRunnerStatus Initial err st6
      in emit OnDisconnected st7)"

text \<open>\<^verbatim>\<open>terminate()\<close>, lines 706-723; \<open>ok\<close> says whether the user answered "OK".\<close>

definition data_githubRef :: "RemoteSession \<Rightarrow> string option" where
  "data_githubRef st = (case priv_data st of None \<Rightarrow> None | Some d \<Rightarrow> githubRef d)"

definition terminate :: "bool \<Rightarrow> RemoteSession \<Rightarrow> bool \<times> RemoteSession" where
  "terminate ok st =
     (let st1 = emit (ShowTerminateWarning (data_githubRef st)) st in
      if ok
      then (True, disconnectRunner None
                    (socket_emit TerminateSession (setSessionData (data_githubRef st1) None st1)))
      else (False, st1))"

text \<open>
  \<^verbatim>\<open>connectTo(data)\<close>. The user's answer to the prompt is an argument. The method is
  suspended while the prompt is open: \<open>connectTo_ask\<close> is the part before the
  \<^verbatim>\<open>await\<close> (\<open>None\<close> when there is no prompt), \<open>connectTo_answered\<close> the part after
  it, and \<open>connectTo_open\<close> the body of the promise, with the handle \<open>new\<close> of the
  socket that \<^verbatim>\<open>io\<close> returns. The result is \<open>Some False\<close> when the method returns
  false, and \<open>None\<close> while the promise is pending: \<^verbatim>\<open>resolve\<close> is traced by the
  listener or the timer that calls it.
\<close>

datatype answer = Continue | Dismissed

definition session_conflict :: "SessionData \<Rightarrow> RemoteSession \<Rightarrow> string option option" where
  "session_conflict data st =
     (case getSessionData st (githubRef data) of
        None \<Rightarrow> None
      | Some e \<Rightarrow> if truthy (sessionId e) \<and> sessionId e \<noteq> sessionId data
                  then Some (sessionId e) else None)"

definition connectTo_ask :: "SessionData \<Rightarrow> RemoteSession \<Rightarrow> RemoteSession option" where
  "connectTo_ask data st =
     (case session_conflict data st of
        None \<Rightarrow> None
      | Some existing \<Rightarrow> Some (emit (ShowInformationMessage (githubRef data) existing) st))"

definition clearTimeoutHandleIfNeeded :: "nat \<Rightarrow> RemoteSession \<Rightarrow> RemoteSession" where
  "clearTimeoutHandleIfNeeded h st =
     emit (ClearTimeout h) (st\<lparr>connectTimers := removeAll h (connectTimers st)\<rparr>)"

definition connectTo_open :: "nat \<Rightarrow> SessionData \<Rightarrow> RemoteSession \<Rightarrow> RemoteSession" where
  "connectTo_open new data st =
     (let st1 = (case socket st of None \<Rightarrow> st | Some s \<Rightarrow> emit (SocketDisconnect s) st);
          st2 = st1\<lparr>priv_data := Some data\<rparr>;
          st3 = emit (Io new (serverAddress data)) st2;
          st4 = emit (SetTimeout new) (st3\<lparr>connectTimers := connectTimers st3 @ [new]\<rparr>);
          st5 = setPartialRunnerStatusData
                  (\<lambda>d. d\<lparr>statusSessionId := sessionId data, runnerStatus := Connecting,
                          runnerError := None, runnerClientStatus := Offline\<rparr>) st4;
          st6 = st5\<lparr>socket := Some new\<rparr>;
          st7 = set_terminals [] st6;
          st8 = emit (RegisterSocketEventListeners new) st7
      in emit (RegisterFSEventHandlers new) st8)"

definition connectTo_answered ::
  "answer \<Rightarrow> nat \<Rightarrow> SessionData \<Rightarrow> RemoteSession \<Rightarrow> bool option \<times> RemoteSession" where
  "connectTo_answered a new data st =
     (if a \<noteq> Continue then (Some False, set_runnerStatus Initial st)
      else (None, connectTo_open new data st))"

definition connectTo ::
  "answer \<Rightarrow> nat \<Rightarrow> SessionData \<Rightarrow> RemoteSession \<Rightarrow> bool option \<times> RemoteSession" where
  "connectTo a new data st =
     (case connectTo_ask data st of
        None \<Rightarrow> (None, connectTo_open new data st)
      | Some st' \<Rightarrow> connectTo_answered a new data st')"

text \<open>
  The callback of the connection timer (lines 616-626) of the call that created the
  socket \<open>sock\<close>. It runs only if the timer is still armed (\<open>None\<close> otherwise), and
  a timer that has fired is armed no more.
\<close>

definition connectTimeout_fire :: "nat \<Rightarrow> RemoteSession \<Rightarrow> RemoteSession option" where
  "connectTimeout_fire sock st =
     (if sock \<notin> set (connectTimers st) then None
      else let st0 = st\<lparr>connectTimers := removeAll sock (connectTimers st)\<rparr> in
        Some (if get_runnerStatus st0 \<in> {Initial, Connected, Connecting}
              then emit (Resolve sock False)
                     (resetRunnerStatus Initial (Some Error_Timeout)
                        (emit (SocketDisconnect sock) st0))
              else st0))"

text \<open>The listener of \<^verbatim>\<open>SessionStarted\<close>, lines 650-676; \<open>data\<close> is the argument of
  the call of \<^verbatim>\<open>connectTo\<close> that registered it. \<open>sessionStarted_record\<close> is its
  lines 661-666, which record the session that has started.\<close>

definition sessionStarted_record :: "SessionData \<Rightarrow> string \<Rightarrow> RemoteSession \<Rightarrow> RemoteSession" where
  "sessionStarted_record data sid st =
     (let st1 = setPartialRunnerStatusData
                  (\<lambda>d. d\<lparr>statusSessionId := Some sid, runnerStatus := SessionStarted\<rparr>) st;
          st2 = emit (OnPortForwardingUpdate None) st1
      in setSessionData (githubRef data) (Some (data\<lparr>sessionId := Some sid\<rparr>)) st2)"

definition on_sessionStarted ::
  "(string \<times> RunnerServerType) list \<Rightarrow> SessionData \<Rightarrow> string \<Rightarrow> RemoteSession \<Rightarrow> RemoteSession" where
  "on_sessionStarted allRunners data sid st =
     (if truthy (get_sessionId st) \<and> get_sessionId st \<noteq> Some sid
      then disconnectRunner (Some Error_SessionIdDoesNotMatch) st
      else
        let st3 = sessionStarted_record data sid st;
            isNewSession = (\<not> truthy (get_sessionId st3));
            st4 = set_sessionId (Some sid) st3
        in if isNewSession then launchRunnerClient allRunners st4 else retrieveRunnerInfo st4)"

text \<open>The listener of \<^verbatim>\<open>'connect'\<close>, lines 644-679, on the socket \<open>sock\<close>.\<close>

definition on_connect :: "nat \<Rightarrow> RemoteSession \<Rightarrow> RemoteSession" where
  "on_connect sock st =
     (let st1 = clearTimeoutHandleIfNeeded sock st;
          st2 = emit (SocketEmit sock (SetType (get_sessionId st1))) st1;
          st3 = set_runnerStatus Connected st2;
          st4 = emit (SocketOnceSessionStarted sock) st3
      in emit (Resolve sock True) st4)"

subsection \<open>Terminals (lines 346, 725-779, 828-862)\<close>

definition terminalLiveThreshold :: int where
  "terminalLiveThreshold = 3"

text \<open>
  \<^verbatim>\<open>a.diff(b, 'second')\<close> of the library dayjs, on instants in milliseconds: the
  difference \<open>a - b\<close> in seconds, cut to a whole number towards zero (the library
  rounds a negative quotient up and any other down).
\<close>

definition diff_second :: "int \<Rightarrow> int \<Rightarrow> int" where
  "diff_second a b = (let d = a - b in if d < 0 then - ((- d) div 1000) else d div 1000)"

text \<open>
  \<^verbatim>\<open>activateTerminal(file?, ignoreIfExists = false)\<close>: \<open>nanoid\<close> and \<open>now\<close> are what
  \<^verbatim>\<open>nanoid()\<close> and \<^verbatim>\<open>dayjs()\<close> return.
\<close>

definition activateTerminal ::
  "string \<Rightarrow> int \<Rightarrow> string option \<Rightarrow> bool \<Rightarrow> RemoteSession \<Rightarrow> bool \<times> RemoteSession" where
  "activateTerminal nanoid now shell ignoreIfExists st =
     (if get_runnerClientStatus st = Offline then (False, st)
      else if ignoreIfExists \<and> priv_terminals st \<noteq> [] then (True, st)
      else
        let options = \<lparr>tid = nanoid,
                       shellFile = (case shell of
                          Some f \<Rightarrow> ShellPath f
                        | None \<Rightarrow> (case (case priv_data st of None \<Rightarrow> None | Some d \<Rightarrow> defaultShell d) of
                              Some f \<Rightarrow> ShellPath f
                            | None \<Rightarrow> GetDefaultShell (runnerClientOS (runnerStatusData st)))),
                       cols = 80, rows = 30, activateTime = now, restoredFromRemote = False\<rparr>;
            st1 = set_terminals (priv_terminals st @ [options]) st;
            st2 = socket_emit (ActivateTerminal options) st1
        in (True,
            case priv_data st2 of
              None \<Rightarrow> st2
            | Some d \<Rightarrow> setSessionData (githubRef d) (Some (d\<lparr>defaultShell := shell\<rparr>)) st2))"

definition activateTerminalIfNeeded ::
  "string \<Rightarrow> int \<Rightarrow> string option \<Rightarrow> RemoteSession \<Rightarrow> bool \<times> RemoteSession" where
  "activateTerminalIfNeeded nanoid now shell st = activateTerminal nanoid now shell True st"

text \<open>The listeners that \<^verbatim>\<open>registerSocketEventListeners(socket)\<close> installs.\<close>

definition on_sessionTerminated :: "RemoteSession \<Rightarrow> RemoteSession" where
  "on_sessionTerminated st = disconnectRunner (Some Error_SessionTerminated) st"

definition restore_terminal :: "int \<Rightarrow> TerminalOptions \<Rightarrow> TerminalInstance" where
  "restore_terminal now t =
     \<lparr>tid = opt_id t, shellFile = opt_file t, cols = opt_cols t, rows = opt_rows t,
      activateTime = now, restoredFromRemote = True\<rparr>"

text \<open>The listener of \<^verbatim>\<open>CurrentTerminals\<close>, lines 729-737; the clock is read once.\<close>

definition on_currentTerminals ::
  "string \<Rightarrow> int \<Rightarrow> TerminalOptions list \<Rightarrow> RemoteSession \<Rightarrow> RemoteSession" where
  "on_currentTerminals nanoid now ts st =
     snd (activateTerminalIfNeeded nanoid now None (set_terminals (map (restore_terminal now) ts) st))"

definition on_currentPortForwarding :: "nat option \<Rightarrow> RemoteSession \<Rightarrow> RemoteSession" where
  "on_currentPortForwarding port st = emit (OnPortForwardingUpdate port) st"

definition closed_within_threshold :: "int \<Rightarrow> string \<Rightarrow> TerminalInstance list \<Rightarrow> bool" where
  "closed_within_threshold now terminalId ts =
     ((case find (\<lambda>t. tid t = terminalId) ts of
         None \<Rightarrow> 0
       | Some t \<Rightarrow> diff_second (activateTime t) now) \<ge> - terminalLiveThreshold)"

text \<open>The warning of lines 747-749, with the threshold written into the text.\<close>

definition terminalClosedWarning :: string where
  "terminalClosedWarning = ''Terminal closed in 3 seconds, this may indicate an error. Please make sure the shell file exists in the runner client OS.''"

definition on_terminalClosed :: "int \<Rightarrow> string \<Rightarrow> RemoteSession \<Rightarrow> RemoteSession" where
  "on_terminalClosed now terminalId st =
     (let st1 = (if closed_within_threshold now terminalId (priv_terminals st)
                 then emit (ShowWarningMessage terminalClosedWarning) st
                 else st)
      in set_terminals (filter (\<lambda>t. tid t \<noteq> terminalId) (priv_terminals st1)) st1)"

text \<open>
  The listener of \<^verbatim>\<open>RunnerStatus\<close> on the socket \<open>sock\<close>, lines 758-778. Whether a
  folder of the remote file system is open in the workspace is the argument
  \<open>remoteFolderOpen\<close>; the commands of the user interface that the listener awaits
  are traced at once.
\<close>

definition on_runnerStatus ::
  "nat \<Rightarrow> bool \<Rightarrow> RunnerClientStatus \<Rightarrow> string option \<Rightarrow> RemoteSession \<Rightarrow> RemoteSession" where
  "on_runnerStatus sock remoteFolderOpen status clientOS st =
     (let st1 = setPartialRunnerStatusData
                  (\<lambda>d. d\<lparr>runnerClientStatus := status, runnerClientOS := clientOS\<rparr>) st
      in if status = Online
         then emits ([SocketEmit sock FetchCurrentTerminals, SocketEmit sock FetchCurrentPortForwarding]
                     @ (if remoteFolderOpen then [] else [ReopenFolder, RevealInExplorer])
                     @ [OpenControlPanel]) st1
         else st1)"

text \<open>The object after its constructor (lines 359-362 and 426-438).\<close>

definition new_RemoteSession :: "(string option \<rightharpoonup> SessionData) \<Rightarrow> RemoteSession" where
  "new_RemoteSession store =
     \<lparr>priv_data = None, priv_terminals = [], priv_panel = False,
      priv_workflowDispatchTimeout = None,
      runnerStatusData = \<lparr>statusSessionId = None, runnerStatus = Initial, runnerError = None,
                           runnerClientStatus = Offline, runnerClientOS = None\<rparr>,
      socket = None, persisted = store, connectTimers = [], workflowTimers = [], trace = []\<rparr>"

section \<open>The revision at lines 906-1398\<close>

subsection \<open>Status data and its delivery (lines 962-1019 and 1033-1081)\<close>

definition statusUpdates_prev :: "RemoteSession \<Rightarrow> effect list" where
  "statusUpdates_prev st =
     (let d = runnerStatusData st in
       ((if runnerStatus d = Connected
         then [notify d TypeMessage (Some (Text (''Runner conncted. '' @
                 (if truthy (get_sessionId st)
                  then ''Resuming session '' @ the (get_sessionId st)
                  else ''Reuqesting new session'') @ ''...'')))]
         else []) @
        (if runnerStatus d \<in> {Disconnected, Connecting} then [notify d TypeMessage None] else []) @
        (if runnerStatus d = SessionTimeout
         then [notify d TypeError
                 (Some (Text ''Connection timeout. Please try another runner.''))]
         else []) @
        (if runnerStatus d = SessionTerminated
         then [notify d TypeError
                 (Some (Text ''Session has been terminated, please create a new one if needed.''))]
         else []) @
        (if runnerStatus d = SessionStarted
         then [notify d TypeMessage
                 (Some (Conditional
                    (if runnerClientStatus d = Offline
                     then ''Session started. Waiting for runner client response...''
                     else ''Runner client connected. Happy hacking!'')))]
         else [])))"

definition deliverStatusData_prev :: "RemoteSession \<Rightarrow> RemoteSession" where
  "deliverStatusData_prev st = emits (statusUpdates_prev st) st"

definition setPartialRunnerStatusData_prev ::
  "(RunnerStatusData \<Rightarrow> RunnerStatusData) \<Rightarrow> RemoteSession \<Rightarrow> RemoteSession" where
  "setPartialRunnerStatusData_prev partial st =
     deliverStatusData_prev (st\<lparr>runnerStatusData := partial (runnerStatusData st)\<rparr>)"

definition set_runnerStatus_prev :: "RunnerStatus \<Rightarrow> RemoteSession \<Rightarrow> RemoteSession" where
  "set_runnerStatus_prev rs st = setPartialRunnerStatusData_prev (\<lambda>d. d\<lparr>runnerStatus := rs\<rparr>) st"

definition resetRunnerStatus_prev :: "RunnerStatus \<Rightarrow> RemoteSession \<Rightarrow> RemoteSession" where
  "resetRunnerStatus_prev rs st =
     setPartialRunnerStatusData_prev
       (\<lambda>d. d\<lparr>statusSessionId := None, runnerStatus := rs,
               runnerClientStatus := Offline, runnerClientOS := None\<rparr>) st"

subsection \<open>Launching the runner client (lines 1084-1116)\<close>

text \<open>The imported \<^verbatim>\<open>launchRunnerClient\<close> that the method awaits is the effect
  \<open>LaunchRunnerClient\<close>.\<close>

definition launchRunnerClient_prev ::
  "(string \<times> RunnerServerType) list \<Rightarrow> RemoteSession \<Rightarrow> RemoteSession" where
  "launchRunnerClient_prev allRunners st =
     (if runnerTypeOf allRunners (data_serverAddress st) \<noteq> Some GitHubActions then st
      else case priv_data st of
             None \<Rightarrow> postNoDataMessage st
           | Some d \<Rightarrow>
               if githubRef d = None \<or> \<not> truthy (os d) \<or> \<not> truthy (serverAddress d)
                  \<or> \<not> truthy (sessionId d)
               then postNoDataMessage st
               else emit (LaunchRunnerClient (serverAddress d) (os d) (sessionId d)) st)"

definition retrieveRunnerInfo_prev :: "RemoteSession \<Rightarrow> RemoteSession" where
  "retrieveRunnerInfo_prev st = socket_emit FetchCurrentTerminals (socket_emit CheckRunnerStatus st)"

subsection \<open>Session control (lines 1119-1236)\<close>

definition connectTo_open_prev :: "nat \<Rightarrow> SessionData \<Rightarrow> RemoteSession \<Rightarrow> RemoteSession" where
  "connectTo_open_prev new data st =
     (let st1 = (case socket st of None \<Rightarrow> st | Some s \<Rightarrow> emit (SocketDisconnect s) st);
          st2 = st1\<lparr>priv_data := Some data\<rparr>;
          st3 = emit (Io new (serverAddress data)) st2;
          st4 = emit (SetTimeout new) (st3\<lparr>connectTimers := connectTimers st3 @ [new]\<rparr>);
          st5 = setPartialRunnerStatusData_prev
                  (\<lambda>d. d\<lparr>statusSessionId := sessionId data, runnerStatus := Connecting,
                          runnerClientStatus := Offline\<rparr>) st4;
          st6 = st5\<lparr>socket := Some new\<rparr>
      in set_terminals [] st6)"

definition connectTo_answered_prev ::
  "answer \<Rightarrow> nat \<Rightarrow> SessionData \<Rightarrow> RemoteSession \<Rightarrow> bool option \<times> RemoteSession" where
  "connectTo_answered_prev a new data st =
     (if a \<noteq> Continue then (Some False, set_runnerStatus_prev Disconnected st)
      else (None, connectTo_open_prev new data st))"

definition connectTo_prev ::
  "answer \<Rightarrow> nat \<Rightarrow> SessionData \<Rightarrow> RemoteSession \<Rightarrow> bool option \<times> RemoteSession" where
  "connectTo_prev a new data st =
     (case connectTo_ask data st of
        None \<Rightarrow> (None, connectTo_open_prev new data st)
      | Some st' \<Rightarrow> connectTo_answered_prev a new data st')"

definition connectTimeout_fire_prev :: "nat \<Rightarrow> RemoteSession \<Rightarrow> RemoteSession option" where
  "connectTimeout_fire_prev sock st =
     (if sock \<notin> set (connectTimers st) then None
      else let st0 = st\<lparr>connectTimers := removeAll sock (connectTimers st)\<rparr> in
        Some (if get_runnerStatus st0 \<in> {Disconnected, Connected, Connecting}
              then emit (Resolve sock False)
                     (resetRunnerStatus_prev SessionTimeout (emit (SocketDisconnect sock) st0))
              else st0))"

definition on_connect_prev :: "nat \<Rightarrow> RemoteSession \<Rightarrow> RemoteSession" where
  "on_connect_prev sock st =
     set_runnerStatus_prev Connected (emit (SocketEmit sock (SetType (get_sessionId st))) st)"

text \<open>The listener of \<^verbatim>\<open>'disconnect'\<close>, lines 1175-1184, on the socket \<open>sock\<close>.\<close>

definition on_disconnect_prev :: "nat \<Rightarrow> RemoteSession \<Rightarrow> RemoteSession" where
  "on_disconnect_prev sock st =
     (let st1 = set_terminals [] st;
          st2 = (if get_runnerStatus st1 \<in> {Connected, SessionStarted}
                 then resetRunnerStatus_prev Disconnected st1 else st1)
      in clearTimeoutHandleIfNeeded sock st2)"

definition on_sessionTerminated_prev :: "nat \<Rightarrow> SessionData \<Rightarrow> RemoteSession \<Rightarrow> RemoteSession" where
  "on_sessionTerminated_prev sock data st =
     setSessionData (githubRef data) None
       (resetRunnerStatus_prev SessionTerminated
          (emit (SocketDisconnect sock) (clearTimeoutHandleIfNeeded sock st)))"

text \<open>\<^verbatim>\<open>disconnect()\<close> and \<^verbatim>\<open>terminate()\<close>, lines 1233-1255.\<close>

definition disconnect_prev :: "RemoteSession \<Rightarrow> RemoteSession" where
  "disconnect_prev st =
     set_sessionId None (case socket st of None \<Rightarrow> st | Some s \<Rightarrow> emit (SocketDisconnect s) st)"

definition terminate_prev :: "bool \<Rightarrow> RemoteSession \<Rightarrow> bool \<times> RemoteSession" where
  "terminate_prev ok st =
     (let st1 = emit (ShowTerminateWarning (data_githubRef st)) st in
      if ok
      then (True, disconnect_prev
                    (socket_emit TerminateSession (setSessionData (data_githubRef st1) None st1)))
      else (False, st1))"

definition registerSocketEventListeners_prev :: "RemoteSession \<Rightarrow> RemoteSession" where
  "registerSocketEventListeners_prev st =
     (case socket st of None \<Rightarrow> st | Some s \<Rightarrow> emit (RegisterSocketEventListeners s) st)"

text \<open>The listener of \<^verbatim>\<open>SessionStarted\<close>, lines 1193-1229. The constant the source
  calls \<^verbatim>\<open>isNewSession\<close> is true when a session id is held.
  \<open>sessionStarted_record_prev\<close> is its lines 1208-1218.\<close>

definition sessionStarted_record_prev ::
  "nat \<Rightarrow> SessionData \<Rightarrow> string \<Rightarrow> RemoteSession \<Rightarrow> RemoteSession" where
  "sessionStarted_record_prev sock data sid st =
     (let st1 = clearTimeoutHandleIfNeeded sock st;
          st2 = registerSocketEventListeners_prev st1;
          st3 = set_runnerStatus_prev SessionStarted st2;
          st4 = setPartialRunnerStatusData_prev
                  (\<lambda>d. d\<lparr>statusSessionId := Some sid, runnerStatus := SessionStarted\<rparr>) st3
      in setSessionData (githubRef data) (Some (data\<lparr>sessionId := Some sid\<rparr>)) st4)"

definition on_sessionStarted_prev ::
  "(string \<times> RunnerServerType) list \<Rightarrow> nat \<Rightarrow> SessionData \<Rightarrow> string \<Rightarrow> RemoteSession \<Rightarrow> RemoteSession" where
  "on_sessionStarted_prev allRunners sock data sid st =
     (if truthy (get_sessionId st) \<and> get_sessionId st \<noteq> Some sid then st
      else if get_runnerStatus st \<noteq> Connected then st
      else
        let st5 = sessionStarted_record_prev sock data sid st;
            isNewSession = truthy (get_sessionId st5);
            st6 = set_sessionId (Some sid) st5;
            st7 = (if isNewSession then retrieveRunnerInfo_prev st6
                   else launchRunnerClient_prev allRunners st6)
        in emit (Resolve sock True) st7)"

subsection \<open>Terminals (lines 1257-1356)\<close>

definition on_currentTerminals_prev :: "int \<Rightarrow> TerminalOptions list \<Rightarrow> RemoteSession \<Rightarrow> RemoteSession" where
  "on_currentTerminals_prev now ts st = set_terminals (map (restore_terminal now) ts) st"

definition terminalClosedWarning_prev :: string where
  "terminalClosedWarning_prev = ''Terminal closed in 3 seconds, this may indicates an error. Please make sure the shell file exists in the runner client OS.''"

definition on_terminalClosed_prev :: "int \<Rightarrow> string \<Rightarrow> RemoteSession \<Rightarrow> RemoteSession" where
  "on_terminalClosed_prev now terminalId st =
     (let st1 = (if closed_within_threshold now terminalId (priv_terminals st)
                 then emit (ShowWarningMessage terminalClosedWarning_prev) st
                 else st)
      in set_terminals (filter (\<lambda>t. tid t \<noteq> terminalId) (priv_terminals st1)) st1)"

definition on_runnerStatus_prev ::
  "RunnerClientStatus \<Rightarrow> string option \<Rightarrow> RemoteSession \<Rightarrow> RemoteSession" where
  "on_runnerStatus_prev status clientOS st =
     setPartialRunnerStatusData_prev
       (\<lambda>d. d\<lparr>runnerClientStatus := status, runnerClientOS := clientOS\<rparr>) st"

definition activateTerminal_prev ::
  "string \<Rightarrow> int \<Rightarrow> string \<Rightarrow> bool \<Rightarrow> RemoteSession \<Rightarrow> bool \<times> RemoteSession" where
  "activateTerminal_prev nanoid now shell ignoreIfExists st =
     (if get_runnerClientStatus st = Offline then (False, st)
      else if \<not> ignoreIfExists \<or> priv_terminals st = []
      then
        let options = \<lparr>tid = nanoid, shellFile = ShellPath shell, cols = 80, rows = 30,
                       activateTime = now, restoredFromRemote = False\<rparr>;
            st1 = set_terminals (priv_terminals st @ [options]) st
        in (True, socket_emit (ActivateTerminal options) st1)
      else (True, st))"

definition new_RemoteSession_prev :: "(string option \<rightharpoonup> SessionData) \<Rightarrow> RemoteSession" where
  "new_RemoteSession_prev store =
     \<lparr>priv_data = None, priv_terminals = [], priv_panel = False,
      priv_workflowDispatchTimeout = None,
      runnerStatusData = \<lparr>statusSessionId = None, runnerStatus = Disconnected, runnerError = None,
                           runnerClientStatus = Offline, runnerClientOS = None\<rparr>,
      socket = None, persisted = store, connectTimers = [], workflowTimers = [], trace = []\<rparr>"

section \<open>The states of the specification\<close>

text \<open>
  The specification names seven connection states. The revision at 292-905 has no
  status for a timeout or a terminated session: it returns to \<open>Initial\<close> and records
  the error. \<open>connectionState\<close> reads the specification's state off the status data
  of either revision, following the specification's words: \<^verbatim>\<open>Timeout\<close> is "no
  transport/session confirmation within deadline", \<^verbatim>\<open>Terminated\<close> is "peer explicitly
  ended the session", \<^verbatim>\<open>Idle\<close> is "no connection attempt".
\<close>

datatype ConnectionState =
  Spec_Idle | Spec_Connecting | Spec_Connected | Spec_SessionStarted | Spec_Disconnected
  | Spec_Timeout | Spec_Terminated

definition connectionState :: "RunnerStatusData \<Rightarrow> ConnectionState" where
  "connectionState d =
     (case runnerStatus d of
        Initial \<Rightarrow> (case runnerError d of
                      Some Error_Timeout \<Rightarrow> Spec_Timeout
                    | Some Error_SessionTerminated \<Rightarrow> Spec_Terminated
                    | _ \<Rightarrow> Spec_Idle)
      | Connecting \<Rightarrow> Spec_Connecting
      | Connected \<Rightarrow> Spec_Connected
      | Disconnected \<Rightarrow> Spec_Disconnected
      | SessionStarted \<Rightarrow> Spec_SessionStarted
      | SessionTimeout \<Rightarrow> Spec_Timeout
      | SessionTerminated \<Rightarrow> Spec_Terminated)"

section \<open>Example runs\<close>

definition example_runners :: "(string \<times> RunnerServerType) list" where
  "example_runners = [(''https://runner.example'', GitHubActions)]"

definition example_data :: SessionData where
  "example_data =
     \<lparr>sessionId = None, serverAddress = Some ''https://runner.example'',
      githubRef = Some ''refs/heads/main'', os = Some ''ubuntu'', defaultShell = None\<rparr>"

definition example_resume :: SessionData where
  "example_resume = example_data\<lparr>sessionId := Some ''abc''\<rparr>"

text \<open>A new session: connect, the transport connects, the peer starts session
  \<open>abc\<close>, the runner client comes online, one terminal is activated.\<close>

definition example_connecting :: RemoteSession where
  "example_connecting = snd (connectTo Continue 1 example_data (new_RemoteSession Map.empty))"

definition example_connected :: RemoteSession where
  "example_connected = on_connect 1 example_connecting"

definition example_started :: RemoteSession where
  "example_started = on_sessionStarted example_runners example_data ''abc'' example_connected"

definition example_online :: RemoteSession where
  "example_online = on_runnerStatus 1 True Online (Some ''linux'') example_started"

definition example_terminal :: RemoteSession where
  "example_terminal = snd (activateTerminal ''T1'' 0 None False example_online)"

text \<open>A resumed session \<open>abc\<close>, up to the transport's connect event.\<close>

definition example_resumed :: RemoteSession where
  "example_resumed =
     on_connect 2 (snd (connectTo Continue 2 example_resume (new_RemoteSession Map.empty)))"

text \<open>The same runs in the revision at 906-1398.\<close>

definition example_resumed_prev :: RemoteSession where
  "example_resumed_prev =
     on_connect_prev 2 (snd (connectTo_prev Continue 2 example_resume (new_RemoteSession_prev Map.empty)))"

definition example_connected_prev :: RemoteSession where
  "example_connected_prev =
     on_connect_prev 1 (snd (connectTo_prev Continue 1 example_data (new_RemoteSession_prev Map.empty)))"

definition example_online_prev :: RemoteSession where
  "example_online_prev =
     on_runnerStatus_prev Online (Some ''linux'')
       (on_sessionStarted_prev example_runners 1 example_data ''abc'' example_connected_prev)"

text \<open>A declined prompt while a session of the earlier revision is online.\<close>

definition example_declined_prev :: RemoteSession where
  "example_declined_prev = snd (connectTo_answered_prev Dismissed 3 example_data example_online_prev)"

text \<open>The session of the first run once the dispatcher has armed its timer \<open>7\<close>.\<close>

definition example_dispatched :: RemoteSession where
  "example_dispatched = set_workflowDispatchTimeout 7 example_started"

text \<open>Two calls of \<^verbatim>\<open>connectTo\<close> in succession, with no event between them.\<close>

definition example_twice :: RemoteSession where
  "example_twice = snd (connectTo Continue 2 example_data example_connecting)"

text \<open>A store that holds the session \<open>abc\<close> for the reference of the examples, and
  an object over it that runs that session.\<close>

definition example_store :: "string option \<rightharpoonup> SessionData" where
  "example_store = [Some ''refs/heads/main'' \<mapsto> example_resume]"

definition example_running :: RemoteSession where
  "example_running =
     on_runnerStatus 2 True Online (Some ''linux'')
       (on_sessionStarted example_runners example_resume ''abc''
          (on_connect 2 (snd (connectTo Continue 2 example_resume (new_RemoteSession example_store)))))"

text \<open>The conditions under which \<^verbatim>\<open>launchRunnerClient\<close> goes on to the
  provisioning (lines 544-567 and 1087-1110), read off the session data.\<close>

definition launch_data_sufficient ::
  "(string \<times> RunnerServerType) list \<Rightarrow> SessionData option \<Rightarrow> bool" where
  "launch_data_sufficient allRunners dopt =
     (case dopt of
        None \<Rightarrow> False
      | Some d \<Rightarrow> runnerTypeOf allRunners (serverAddress d) = Some GitHubActions
                  \<and> githubRef d \<noteq> None \<and> truthy (os d) \<and> truthy (serverAddress d)
                  \<and> truthy (sessionId d))"









section \<open>The states an object can be in\<close>

text \<open>
  An object is made by its constructor and changed by its methods, by the listeners of
  its sockets and by its timers. The part of \<^verbatim>\<open>connectTo\<close> that follows the prompt is a
  step of its own, since other steps may come before the answer. A listener runs for
  the socket the object holds: the
  object closes a socket before it forgets or replaces it, and a socket that was closed
  delivers no event. The last two rules stand for what the embedding leaves out (the
  messages of the terminal panel, the output of the terminals, the user closing the
  panel): such a step adds an effect or changes the panel, and nothing else.
\<close>

inductive reachable :: "RemoteSession \<Rightarrow> bool" where
  reachable_new: "reachable (new_RemoteSession store)"
| reachable_connectTo: "reachable st \<Longrightarrow> reachable (snd (connectTo a new data st))"
| reachable_answered: "reachable st \<Longrightarrow> reachable (snd (connectTo_answered a new data st))"
| reachable_connectTimeout:
    "reachable st \<Longrightarrow> connectTimeout_fire sock st = Some st' \<Longrightarrow> reachable st'"
| reachable_connect: "reachable st \<Longrightarrow> socket st = Some sock \<Longrightarrow> reachable (on_connect sock st)"
| reachable_sessionStarted:
    "reachable st \<Longrightarrow> socket st = Some sock \<Longrightarrow>
     reachable (on_sessionStarted allRunners data sid st)"
| reachable_disconnect: "reachable st \<Longrightarrow> socket st = Some sock \<Longrightarrow> reachable (on_disconnect st)"
| reachable_sessionTerminated:
    "reachable st \<Longrightarrow> socket st = Some sock \<Longrightarrow> reachable (on_sessionTerminated st)"
| reachable_currentTerminals:
    "reachable st \<Longrightarrow> socket st = Some sock \<Longrightarrow>
     reachable (on_currentTerminals nanoid now ts st)"
| reachable_currentPortForwarding:
    "reachable st \<Longrightarrow> socket st = Some sock \<Longrightarrow> reachable (on_currentPortForwarding port st)"
| reachable_terminalClosed:
    "reachable st \<Longrightarrow> socket st = Some sock \<Longrightarrow> reachable (on_terminalClosed now terminalId st)"
| reachable_runnerStatus:
    "reachable st \<Longrightarrow> socket st = Some sock \<Longrightarrow>
     reachable (on_runnerStatus sock remoteFolderOpen status clientOS st)"
| reachable_activateTerminal:
    "reachable st \<Longrightarrow> reachable (snd (activateTerminal nanoid now shell ignoreIfExists st))"
| reachable_terminate: "reachable st \<Longrightarrow> reachable (snd (terminate ok st))"
| reachable_launched:
    "reachable st \<Longrightarrow> reachable (launchRunnerClient_resume ownerRepo d st)"
| reachable_dispatched: "reachable st \<Longrightarrow> reachable (set_workflowDispatchTimeout t st)"
| reachable_effect: "reachable st \<Longrightarrow> reachable (emit e st)"
| reachable_panel: "reachable st \<Longrightarrow> reachable (st\<lparr>priv_panel := b\<rparr>)"

inductive reachable_prev :: "RemoteSession \<Rightarrow> bool" where
  reachable_prev_new: "reachable_prev (new_RemoteSession_prev store)"
| reachable_prev_connectTo: "reachable_prev st \<Longrightarrow> reachable_prev (snd (connectTo_prev a new data st))"
| reachable_prev_answered:
    "reachable_prev st \<Longrightarrow> reachable_prev (snd (connectTo_answered_prev a new data st))"
| reachable_prev_connectTimeout:
    "reachable_prev st \<Longrightarrow> connectTimeout_fire_prev sock st = Some st' \<Longrightarrow> reachable_prev st'"
| reachable_prev_connect:
    "reachable_prev st \<Longrightarrow> socket st = Some sock \<Longrightarrow> reachable_prev (on_connect_prev sock st)"
| reachable_prev_sessionStarted:
    "reachable_prev st \<Longrightarrow> socket st = Some sock \<Longrightarrow>
     reachable_prev (on_sessionStarted_prev allRunners sock data sid st)"
| reachable_prev_disconnect:
    "reachable_prev st \<Longrightarrow> socket st = Some sock \<Longrightarrow> reachable_prev (on_disconnect_prev sock st)"
| reachable_prev_sessionTerminated:
    "reachable_prev st \<Longrightarrow> socket st = Some sock \<Longrightarrow>
     reachable_prev (on_sessionTerminated_prev sock data st)"
| reachable_prev_currentTerminals:
    "reachable_prev st \<Longrightarrow> socket st = Some sock \<Longrightarrow>
     reachable_prev (on_currentTerminals_prev now ts st)"
| reachable_prev_terminalClosed:
    "reachable_prev st \<Longrightarrow> socket st = Some sock \<Longrightarrow>
     reachable_prev (on_terminalClosed_prev now terminalId st)"
| reachable_prev_runnerStatus:
    "reachable_prev st \<Longrightarrow> socket st = Some sock \<Longrightarrow>
     reachable_prev (on_runnerStatus_prev status clientOS st)"
| reachable_prev_activateTerminal:
    "reachable_prev st \<Longrightarrow>
     reachable_prev (snd (activateTerminal_prev nanoid now shell ignoreIfExists st))"
| reachable_prev_disconnected: "reachable_prev st \<Longrightarrow> reachable_prev (disconnect_prev st)"
| reachable_prev_terminate: "reachable_prev st \<Longrightarrow> reachable_prev (snd (terminate_prev ok st))"
| reachable_prev_effect: "reachable_prev st \<Longrightarrow> reachable_prev (emit e st)"
| reachable_prev_panel: "reachable_prev st \<Longrightarrow> reachable_prev (st\<lparr>priv_panel := b\<rparr>)"

section \<open>Properties\<close>

text \<open>The effects a step adds to the trace.\<close>

definition new_effects :: "RemoteSession \<Rightarrow> RemoteSession \<Rightarrow> effect list" where
  "new_effects st st' = drop (length (trace st)) (trace st')"

text \<open>The messages among some effects that were sent on a socket; the calls among them
  that start the provisioning of a runner client; the warnings shown; and the effects on
  the transport: a socket created, used or closed.\<close>

definition socket_messages :: "effect list \<Rightarrow> (nat \<times> VscClientEvent) list" where
  "socket_messages es = concat (map (\<lambda>e. case e of SocketEmit s m \<Rightarrow> [(s, m)] | _ \<Rightarrow> []) es)"

definition provisioning_calls :: "effect list \<Rightarrow> effect list" where
  "provisioning_calls es =
     filter (\<lambda>e. case e of
                   SetupRunnerClientRepo \<Rightarrow> True
                 | DispatchRunnerClientWorkflow _ _ _ _ \<Rightarrow> True
                 | LaunchRunnerClient _ _ _ \<Rightarrow> True
                 | _ \<Rightarrow> False) es"

definition warnings :: "effect list \<Rightarrow> string list" where
  "warnings es = concat (map (\<lambda>e. case e of ShowWarningMessage m \<Rightarrow> [m] | _ \<Rightarrow> []) es)"

definition transport_effects :: "effect list \<Rightarrow> effect list" where
  "transport_effects es =
     filter (\<lambda>e. case e of
                   Io _ _ \<Rightarrow> True
                 | SocketEmit _ _ \<Rightarrow> True
                 | SocketDisconnect _ \<Rightarrow> True
                 | SocketOffAny _ \<Rightarrow> True
                 | _ \<Rightarrow> False) es"

lemmas op_defs = emit_def emits_def socket_emit_def get_sessionId_def set_sessionId_def
  get_runnerStatus_def get_runnerClientStatus_def getSessionData_def setSessionData_def
  deliverStatusData_def setPartialRunnerStatusData_def set_runnerStatus_def resetRunnerStatus_def
  revealPanel_def setupPanelIfNeeded_def postTerminalsToWebview_def set_terminals_def
  clearWorkflowDispatchTimeoutIfNeeded_def postNoDataMessage_def clearTimeoutHandleIfNeeded_def
  deliverStatusData_prev_def setPartialRunnerStatusData_prev_def set_runnerStatus_prev_def
  resetRunnerStatus_prev_def registerSocketEventListeners_prev_def new_effects_def

subsection \<open>What \<open>disconnectRunner\<close> leaves behind\<close>

lemma disconnectRunner_state:
  "priv_data (disconnectRunner err st) = None"
  "priv_terminals (disconnectRunner err st) = []"
  "socket (disconnectRunner err st) = None"
  "persisted (disconnectRunner err st) = persisted st"
  "connectTimers (disconnectRunner err st) = connectTimers st"
  "runnerStatusData (disconnectRunner err st) =
     (runnerStatusData st)\<lparr>statusSessionId := None, runnerStatus := Initial, runnerError := err,
        runnerClientStatus := Offline, runnerClientOS := None\<rparr>"
  by (simp_all add: disconnectRunner_def op_defs Let_def split: option.splits)

lemma disconnectRunner_cancels:
  "priv_workflowDispatchTimeout st = Some t \<Longrightarrow> t \<notin> set (workflowTimers (disconnectRunner err st))"
  by (simp add: disconnectRunner_def op_defs Let_def split: option.splits)

lemma disconnectRunner_effects:
  "new_effects st (disconnectRunner err st) =
     (case priv_workflowDispatchTimeout st of None \<Rightarrow> [] | Some t \<Rightarrow> [ClearWorkflowTimeout t]) @
     (case socket st of None \<Rightarrow> [] | Some s \<Rightarrow> [SocketOffAny s, SocketDisconnect s]) @
     [FileSystemRemoveSocket] @ (if priv_panel st then [DisposePanel] else []) @
     statusUpdates (st\<lparr>priv_data := None,
        runnerStatusData := (runnerStatusData st)\<lparr>statusSessionId := None,
          runnerStatus := Initial, runnerError := err,
          runnerClientStatus := Offline, runnerClientOS := None\<rparr>\<rparr>) @
     [OnDisconnected]"
  apply (simp add: disconnectRunner_def op_defs Let_def split: option.splits)
  apply (simp add: statusUpdates_def get_sessionId_def)
  done

subsection \<open>The example runs, evaluated\<close>

lemma example_resumed_holds:
  "get_sessionId example_resumed = Some ''abc''" "socket example_resumed = Some 2"
  "get_runnerStatus example_resumed = Connected"
  by code_simp+

lemma example_resumed_prev_holds:
  "get_sessionId example_resumed_prev = Some ''abc''" "socket example_resumed_prev = Some 2"
  "get_runnerStatus example_resumed_prev = Connected"
  by code_simp+

lemma example_terminal_registry:
  "priv_terminals example_terminal =
     [\<lparr>tid = ''T1'', shellFile = GetDefaultShell (Some ''linux''), cols = 80, rows = 30,
       activateTime = 0, restoredFromRemote = False\<rparr>]"
  by code_simp

lemma example_online_prev_status:
  "runnerStatusData example_online_prev =
     \<lparr>statusSessionId = Some ''abc'', runnerStatus = SessionStarted, runnerError = None,
      runnerClientStatus = Online, runnerClientOS = Some ''linux''\<rparr>"
  by code_simp

lemma example_declined_prev_status:
  "runnerStatusData example_declined_prev =
     \<lparr>statusSessionId = Some ''abc'', runnerStatus = Disconnected, runnerError = None,
      runnerClientStatus = Online, runnerClientOS = Some ''linux''\<rparr>"
  by code_simp

lemma example_started_holds:
  "get_runnerStatus example_started = SessionStarted"
  "persisted example_started (Some ''refs/heads/main'') = Some example_resume"
  "socket example_started = Some 1"
  by code_simp+

lemma example_dispatched_holds:
  "priv_workflowDispatchTimeout example_dispatched = Some 7"
  "workflowTimers example_dispatched = [7]"
  "socket example_dispatched = Some 1"
  "persisted example_dispatched (Some ''refs/heads/main'') = Some example_resume"
  by code_simp+

subsection \<open>What \<open>statusUpdates\<close> delivers\<close>

lemma statusUpdates_mismatch:
  "runnerStatus (runnerStatusData st) = Initial \<Longrightarrow>
   runnerError (runnerStatusData st) = Some Error_SessionIdDoesNotMatch \<Longrightarrow>
   notify (runnerStatusData st) TypeError
     (Some (Text ''The registered session ID for this client doesn't match. Please check your input.''))
     \<in> set (statusUpdates st)"
  by (simp add: statusUpdates_def Let_def)

lemma statusUpdates_only_updates:
  "SetSessionData ref d \<notin> set (statusUpdates st)"
  by (simp add: statusUpdates_def Let_def notify_def split: option.splits)

subsection \<open>The fields after each basic step\<close>

lemma socket_messages_simps:
  "socket_messages [] = []"
  "socket_messages (a @ b) = socket_messages a @ socket_messages b"
  "socket_messages (e # es) = (case e of SocketEmit s m \<Rightarrow> [(s, m)] | _ \<Rightarrow> []) @ socket_messages es"
  by (simp_all add: socket_messages_def)

lemma provisioning_calls_simps:
  "provisioning_calls [] = []"
  "provisioning_calls (a @ b) = provisioning_calls a @ provisioning_calls b"
  "provisioning_calls (e # es) =
     (if (case e of SetupRunnerClientRepo \<Rightarrow> True
                 | DispatchRunnerClientWorkflow _ _ _ _ \<Rightarrow> True
                 | LaunchRunnerClient _ _ _ \<Rightarrow> True
                 | _ \<Rightarrow> False) then [e] else []) @ provisioning_calls es"
  by (simp_all add: provisioning_calls_def)

lemma transport_effects_simps:
  "transport_effects [] = []"
  "transport_effects (a @ b) = transport_effects a @ transport_effects b"
  "transport_effects (e # es) =
     (if (case e of Io _ _ \<Rightarrow> True | SocketEmit _ _ \<Rightarrow> True | SocketDisconnect _ \<Rightarrow> True
                 | SocketOffAny _ \<Rightarrow> True | _ \<Rightarrow> False) then [e] else []) @ transport_effects es"
  by (simp_all add: transport_effects_def)

lemmas filter_simps = socket_messages_simps provisioning_calls_simps transport_effects_simps

lemma statusUpdates_quiet:
  "socket_messages (statusUpdates st) = []"
  "provisioning_calls (statusUpdates st) = []"
  "transport_effects (statusUpdates st) = []"
  by (simp_all add: statusUpdates_def notify_def Let_def filter_simps split: option.splits)


lemma emit_fields:
  "priv_data (emit e st) = priv_data st"
  "priv_terminals (emit e st) = priv_terminals st"
  "priv_panel (emit e st) = priv_panel st"
  "priv_workflowDispatchTimeout (emit e st) = priv_workflowDispatchTimeout st"
  "runnerStatusData (emit e st) = runnerStatusData st"
  "socket (emit e st) = socket st"
  "persisted (emit e st) = persisted st"
  "connectTimers (emit e st) = connectTimers st"
  "workflowTimers (emit e st) = workflowTimers st"
  "trace (emit e st) = trace st @ [e]"
  by (simp_all add: emit_def)

lemma socket_emit_fields:
  "priv_data (socket_emit m st) = priv_data st"
  "priv_terminals (socket_emit m st) = priv_terminals st"
  "priv_panel (socket_emit m st) = priv_panel st"
  "priv_workflowDispatchTimeout (socket_emit m st) = priv_workflowDispatchTimeout st"
  "runnerStatusData (socket_emit m st) = runnerStatusData st"
  "socket (socket_emit m st) = socket st"
  "persisted (socket_emit m st) = persisted st"
  "connectTimers (socket_emit m st) = connectTimers st"
  "workflowTimers (socket_emit m st) = workflowTimers st"
  "trace (socket_emit m st) = trace st @ (case socket st of None \<Rightarrow> [] | Some s \<Rightarrow> [SocketEmit s m])"
  by (simp_all add: socket_emit_def emit_def split: option.splits)

lemma setPartial_fields:
  "priv_data (setPartialRunnerStatusData p st) = priv_data st"
  "priv_terminals (setPartialRunnerStatusData p st) = priv_terminals st"
  "priv_panel (setPartialRunnerStatusData p st) = priv_panel st"
  "priv_workflowDispatchTimeout (setPartialRunnerStatusData p st) = priv_workflowDispatchTimeout st"
  "runnerStatusData (setPartialRunnerStatusData p st) = p (runnerStatusData st)"
  "socket (setPartialRunnerStatusData p st) = socket st"
  "persisted (setPartialRunnerStatusData p st) = persisted st"
  "connectTimers (setPartialRunnerStatusData p st) = connectTimers st"
  "workflowTimers (setPartialRunnerStatusData p st) = workflowTimers st"
  "trace (setPartialRunnerStatusData p st) =
     trace st @ statusUpdates (st\<lparr>runnerStatusData := p (runnerStatusData st)\<rparr>)"
  by (simp_all add: setPartialRunnerStatusData_def deliverStatusData_def emits_def)

lemma setPartial_prev_fields:
  "priv_data (setPartialRunnerStatusData_prev p st) = priv_data st"
  "priv_terminals (setPartialRunnerStatusData_prev p st) = priv_terminals st"
  "priv_panel (setPartialRunnerStatusData_prev p st) = priv_panel st"
  "priv_workflowDispatchTimeout (setPartialRunnerStatusData_prev p st) = priv_workflowDispatchTimeout st"
  "runnerStatusData (setPartialRunnerStatusData_prev p st) = p (runnerStatusData st)"
  "socket (setPartialRunnerStatusData_prev p st) = socket st"
  "persisted (setPartialRunnerStatusData_prev p st) = persisted st"
  "connectTimers (setPartialRunnerStatusData_prev p st) = connectTimers st"
  "workflowTimers (setPartialRunnerStatusData_prev p st) = workflowTimers st"
  "trace (setPartialRunnerStatusData_prev p st) =
     trace st @ statusUpdates_prev (st\<lparr>runnerStatusData := p (runnerStatusData st)\<rparr>)"
  by (simp_all add: setPartialRunnerStatusData_prev_def deliverStatusData_prev_def emits_def)

lemma setSessionData_fields:
  "priv_data (setSessionData r d st) = priv_data st"
  "priv_terminals (setSessionData r d st) = priv_terminals st"
  "priv_panel (setSessionData r d st) = priv_panel st"
  "priv_workflowDispatchTimeout (setSessionData r d st) = priv_workflowDispatchTimeout st"
  "runnerStatusData (setSessionData r d st) = runnerStatusData st"
  "socket (setSessionData r d st) = socket st"
  "persisted (setSessionData r d st) = (persisted st)(r := d)"
  "connectTimers (setSessionData r d st) = connectTimers st"
  "workflowTimers (setSessionData r d st) = workflowTimers st"
  "trace (setSessionData r d st) = trace st @ [SetSessionData r d]"
  by (simp_all add: setSessionData_def emit_def)

lemma set_sessionId_fields:
  "priv_data (set_sessionId sid st) =
     (if truthy sid then map_option (\<lambda>d. d\<lparr>sessionId := sid\<rparr>) (priv_data st) else None)"
  "priv_terminals (set_sessionId sid st) = priv_terminals st"
  "priv_panel (set_sessionId sid st) = priv_panel st"
  "priv_workflowDispatchTimeout (set_sessionId sid st) = priv_workflowDispatchTimeout st"
  "runnerStatusData (set_sessionId sid st) = runnerStatusData st"
  "socket (set_sessionId sid st) = socket st"
  "persisted (set_sessionId sid st) = persisted st"
  "connectTimers (set_sessionId sid st) = connectTimers st"
  "workflowTimers (set_sessionId sid st) = workflowTimers st"
  "trace (set_sessionId sid st) = trace st"
  by (simp_all add: set_sessionId_def split: option.splits)

lemma set_terminals_fields:
  "priv_data (set_terminals ts st) = priv_data st"
  "priv_terminals (set_terminals ts st) = ts"
  "priv_panel (set_terminals ts st) = (ts \<noteq> [])"
  "priv_workflowDispatchTimeout (set_terminals ts st) = priv_workflowDispatchTimeout st"
  "runnerStatusData (set_terminals ts st) = runnerStatusData st"
  "socket (set_terminals ts st) = socket st"
  "persisted (set_terminals ts st) = persisted st"
  "connectTimers (set_terminals ts st) = connectTimers st"
  "workflowTimers (set_terminals ts st) = workflowTimers st"
  "trace (set_terminals ts st) =
     trace st @ (if ts = [] then (if priv_panel st then [DisposePanel] else [])
                 else (if priv_panel st then [] else [CreateWebviewPanel]) @ [PostTerminals ts])"
  by (simp_all add: set_terminals_def setupPanelIfNeeded_def revealPanel_def
       postTerminalsToWebview_def emit_def)

lemma clearTimeoutHandle_fields:
  "priv_data (clearTimeoutHandleIfNeeded h st) = priv_data st"
  "priv_terminals (clearTimeoutHandleIfNeeded h st) = priv_terminals st"
  "priv_panel (clearTimeoutHandleIfNeeded h st) = priv_panel st"
  "priv_workflowDispatchTimeout (clearTimeoutHandleIfNeeded h st) = priv_workflowDispatchTimeout st"
  "runnerStatusData (clearTimeoutHandleIfNeeded h st) = runnerStatusData st"
  "socket (clearTimeoutHandleIfNeeded h st) = socket st"
  "persisted (clearTimeoutHandleIfNeeded h st) = persisted st"
  "connectTimers (clearTimeoutHandleIfNeeded h st) = removeAll h (connectTimers st)"
  "workflowTimers (clearTimeoutHandleIfNeeded h st) = workflowTimers st"
  "trace (clearTimeoutHandleIfNeeded h st) = trace st @ [ClearTimeout h]"
  by (simp_all add: clearTimeoutHandleIfNeeded_def emit_def)

lemma launchRunnerClient_fields:
  "priv_data (launchRunnerClient ar st) = priv_data st"
  "priv_terminals (launchRunnerClient ar st) = priv_terminals st"
  "priv_panel (launchRunnerClient ar st) = priv_panel st"
  "priv_workflowDispatchTimeout (launchRunnerClient ar st) = priv_workflowDispatchTimeout st"
  "runnerStatusData (launchRunnerClient ar st) = runnerStatusData st"
  "socket (launchRunnerClient ar st) = socket st"
  "persisted (launchRunnerClient ar st) = persisted st"
  "connectTimers (launchRunnerClient ar st) = connectTimers st"
  by (simp_all add: launchRunnerClient_def postNoDataMessage_def
       clearWorkflowDispatchTimeoutIfNeeded_def emit_def split: option.splits)

lemma launchRunnerClient_prev_fields:
  "priv_data (launchRunnerClient_prev ar st) = priv_data st"
  "priv_terminals (launchRunnerClient_prev ar st) = priv_terminals st"
  "priv_panel (launchRunnerClient_prev ar st) = priv_panel st"
  "priv_workflowDispatchTimeout (launchRunnerClient_prev ar st) = priv_workflowDispatchTimeout st"
  "runnerStatusData (launchRunnerClient_prev ar st) = runnerStatusData st"
  "socket (launchRunnerClient_prev ar st) = socket st"
  "persisted (launchRunnerClient_prev ar st) = persisted st"
  "connectTimers (launchRunnerClient_prev ar st) = connectTimers st"
  "workflowTimers (launchRunnerClient_prev ar st) = workflowTimers st"
  by (simp_all add: launchRunnerClient_prev_def postNoDataMessage_def emit_def split: option.splits)

subsection \<open>What launching adds to the trace\<close>



subsection \<open>The session-started listeners, case by case\<close>

lemmas step_fields = emit_fields socket_emit_fields setPartial_fields setPartial_prev_fields
  setSessionData_fields set_sessionId_fields set_terminals_fields clearTimeoutHandle_fields
  launchRunnerClient_fields launchRunnerClient_prev_fields



lemma sessionStarted_record_fields:
  "priv_data (sessionStarted_record data sid st) = priv_data st"
  "socket (sessionStarted_record data sid st) = socket st"
  "runnerStatusData (sessionStarted_record data sid st) =
     (runnerStatusData st)\<lparr>statusSessionId := Some sid, runnerStatus := SessionStarted\<rparr>"
  "persisted (sessionStarted_record data sid st) =
     (persisted st)(githubRef data \<mapsto> data\<lparr>sessionId := Some sid\<rparr>)"
  "\<exists>es. trace (sessionStarted_record data sid st) = trace st @ es
      \<and> socket_messages es = [] \<and> provisioning_calls es = []"
  by (simp_all add: sessionStarted_record_def Let_def step_fields filter_simps statusUpdates_quiet)

lemma registerSocketEventListeners_prev_fields:
  "priv_data (registerSocketEventListeners_prev st) = priv_data st"
  "socket (registerSocketEventListeners_prev st) = socket st"
  "runnerStatusData (registerSocketEventListeners_prev st) = runnerStatusData st"
  "persisted (registerSocketEventListeners_prev st) = persisted st"
  "\<exists>es. trace (registerSocketEventListeners_prev st) = trace st @ es
      \<and> socket_messages es = [] \<and> provisioning_calls es = []"
  by (simp_all add: registerSocketEventListeners_prev_def emit_def filter_simps split: option.splits)

lemma sessionStarted_record_prev_fields:
  "priv_data (sessionStarted_record_prev sock data sid st) = priv_data st"
  "socket (sessionStarted_record_prev sock data sid st) = socket st"
  "runnerStatusData (sessionStarted_record_prev sock data sid st) =
     (runnerStatusData st)\<lparr>statusSessionId := Some sid, runnerStatus := SessionStarted\<rparr>"
  "persisted (sessionStarted_record_prev sock data sid st) =
     (persisted st)(githubRef data \<mapsto> data\<lparr>sessionId := Some sid\<rparr>)"
  by (simp_all add: sessionStarted_record_prev_def Let_def step_fields set_runnerStatus_prev_def
        registerSocketEventListeners_prev_fields)












subsection \<open>More of the example runs, and the terminal-closed listener\<close>


lemma example_connected_prev_holds:
  "get_sessionId example_connected_prev = None" "priv_data example_connected_prev = Some example_data"
  "get_runnerStatus example_connected_prev = Connected" "socket example_connected_prev = Some 1"
  by code_simp+



lemma warnings_simps:
  "warnings [] = []"
  "warnings (a @ b) = warnings a @ warnings b"
  "warnings (e # es) = (case e of ShowWarningMessage m \<Rightarrow> [m] | _ \<Rightarrow> []) @ warnings es"
  by (simp_all add: warnings_def)

lemma diff_second_threshold:
  "(diff_second a now \<ge> - terminalLiveThreshold) = (now - a < 4000)"
  by (auto simp add: diff_second_def terminalLiveThreshold_def Let_def)

lemma closed_within_threshold_found:
  "find (\<lambda>t. tid t = terminalId) ts = Some t \<Longrightarrow>
   closed_within_threshold now terminalId ts = (now - activateTime t < 4000)"
  by (simp add: closed_within_threshold_def diff_second_threshold)

lemma closed_within_threshold_missing:
  "terminalId \<notin> set (map tid ts) \<Longrightarrow> closed_within_threshold now terminalId ts"
proof -
  assume "terminalId \<notin> set (map tid ts)"
  then have "find (\<lambda>t. tid t = terminalId) ts = None"
    by (auto simp add: find_None_iff)
  then show ?thesis
    by (simp add: closed_within_threshold_def terminalLiveThreshold_def)
qed

lemma on_terminalClosed_result:
  "priv_terminals (on_terminalClosed now terminalId st)
     = filter (\<lambda>t. tid t \<noteq> terminalId) (priv_terminals st)"
  "warnings (new_effects st (on_terminalClosed now terminalId st))
     = (if closed_within_threshold now terminalId (priv_terminals st)
        then [terminalClosedWarning] else [])"
  by (simp_all add: on_terminalClosed_def Let_def new_effects_def set_terminals_fields
        emit_fields warnings_simps)

lemma on_terminalClosed_prev_result:
  "priv_terminals (on_terminalClosed_prev now terminalId st)
     = filter (\<lambda>t. tid t \<noteq> terminalId) (priv_terminals st)"
  "warnings (new_effects st (on_terminalClosed_prev now terminalId st))
     = (if closed_within_threshold now terminalId (priv_terminals st)
        then [terminalClosedWarning_prev] else [])"
  by (simp_all add: on_terminalClosed_prev_def Let_def new_effects_def set_terminals_fields
        emit_fields warnings_simps)

lemma example_terminal_found:
  "find (\<lambda>t. tid t = ''T1'') (priv_terminals example_terminal) =
     Some \<lparr>tid = ''T1'', shellFile = GetDefaultShell (Some ''linux''), cols = 80, rows = 30,
           activateTime = 0, restoredFromRemote = False\<rparr>"
  by (simp add: example_terminal_registry)

subsection \<open>Connecting and the connection timer\<close>


lemma connectTo_open_fields:
  "priv_data (connectTo_open new data st) = Some data"
  "priv_terminals (connectTo_open new data st) = []"
  "socket (connectTo_open new data st) = Some new"
  "persisted (connectTo_open new data st) = persisted st"
  "connectTimers (connectTo_open new data st) = connectTimers st @ [new]"
  "workflowTimers (connectTo_open new data st) = workflowTimers st"
  "runnerStatusData (connectTo_open new data st) =
     (runnerStatusData st)\<lparr>statusSessionId := sessionId data, runnerStatus := Connecting,
        runnerError := None, runnerClientStatus := Offline\<rparr>"
  by (simp_all add: connectTo_open_def Let_def step_fields split: option.splits)

lemma on_connect_fields:
  "priv_data (on_connect sock st) = priv_data st"
  "priv_terminals (on_connect sock st) = priv_terminals st"
  "socket (on_connect sock st) = socket st"
  "persisted (on_connect sock st) = persisted st"
  "connectTimers (on_connect sock st) = removeAll sock (connectTimers st)"
  "runnerStatusData (on_connect sock st) = (runnerStatusData st)\<lparr>runnerStatus := Connected\<rparr>"
  by (simp_all add: on_connect_def Let_def set_runnerStatus_def step_fields)




subsection \<open>The prompt of \<open>connectTo\<close>\<close>

lemma set_runnerStatus_fields:
  "priv_data (set_runnerStatus rs st) = priv_data st"
  "priv_terminals (set_runnerStatus rs st) = priv_terminals st"
  "socket (set_runnerStatus rs st) = socket st"
  "persisted (set_runnerStatus rs st) = persisted st"
  "connectTimers (set_runnerStatus rs st) = connectTimers st"
  "workflowTimers (set_runnerStatus rs st) = workflowTimers st"
  "runnerStatusData (set_runnerStatus rs st) = (runnerStatusData st)\<lparr>runnerStatus := rs\<rparr>"
  "trace (set_runnerStatus rs st) =
     trace st @ statusUpdates (st\<lparr>runnerStatusData := (runnerStatusData st)\<lparr>runnerStatus := rs\<rparr>\<rparr>)"
  by (simp_all add: set_runnerStatus_def step_fields)

lemma connectTo_open_trace:
  "\<exists>es. trace (connectTo_open new data st) = trace st @ es"
  by (simp add: connectTo_open_def Let_def step_fields split: option.splits)

lemma example_running_holds:
  "session_conflict example_data example_running = Some (Some ''abc'')"
  "socket example_running = Some 2"
  "get_runnerStatus example_running = SessionStarted"
  "persisted example_running (Some ''refs/heads/main'') = Some example_resume"
  by code_simp+

lemma example_connecting_holds:
  "connectTimers example_connecting = [1]" "get_runnerStatus example_connecting = Connecting"
  "session_conflict example_data (new_RemoteSession Map.empty) = None"
  by code_simp+

lemma example_twice_holds:
  "connectTimers example_twice = [1, 2]" "socket example_twice = Some 2"
  by code_simp+


lemma example_online_holds:
  "get_runnerClientStatus example_online = Online" "priv_terminals example_online = []"
  "socket example_online = Some 1"
  by code_simp+

lemma example_terminal_holds:
  "get_runnerClientStatus example_terminal = Online" "socket example_terminal = Some 1"
  by code_simp+

lemma example_started_offline:
  "get_runnerClientStatus example_started = Offline"
  by code_simp

lemma example_online_prev_holds:
  "get_runnerClientStatus example_online_prev = Online" "priv_terminals example_online_prev = []"
  "socket example_online_prev = Some 1"
  by code_simp+

lemma removeAll_only: "set ws \<subseteq> {x} \<Longrightarrow> removeAll x ws = []"
  by (induction ws) auto

subsection \<open>Activating a terminal\<close>

lemma activateTerminal_appends:
  assumes "get_runnerClientStatus st \<noteq> Offline" and "\<not> (ign \<and> priv_terminals st \<noteq> [])"
  shows "\<exists>t st'. activateTerminal nanoid now shell ign st = (True, st')
      \<and> priv_terminals st' = priv_terminals st @ [t]
      \<and> tid t = nanoid \<and> activateTime t = now \<and> \<not> restoredFromRemote t
      \<and> socket_messages (new_effects st st') =
           (case socket st of None \<Rightarrow> [] | Some s \<Rightarrow> [(s, ActivateTerminal t)])"
  using assms
  by (auto simp add: activateTerminal_def Let_def new_effects_def step_fields filter_simps
        split: option.splits)

lemma activateTerminal_prev_appends:
  assumes "get_runnerClientStatus st \<noteq> Offline" and "\<not> (ign \<and> priv_terminals st \<noteq> [])"
  shows "\<exists>t st'. activateTerminal_prev nanoid now shell ign st = (True, st')
      \<and> priv_terminals st' = priv_terminals st @ [t]
      \<and> tid t = nanoid \<and> activateTime t = now \<and> \<not> restoredFromRemote t
      \<and> socket_messages (new_effects st st') =
           (case socket st of None \<Rightarrow> [] | Some s \<Rightarrow> [(s, ActivateTerminal t)])"
  using assms
  by (auto simp add: activateTerminal_prev_def Let_def new_effects_def step_fields filter_simps
        split: option.splits)

subsection \<open>An object that holds no socket has its runner client offline\<close>

lemma resetRunnerStatus_fields:
  "socket (resetRunnerStatus rs err st) = socket st"
  "runnerClientStatus (runnerStatusData (resetRunnerStatus rs err st)) = Offline"
  by (simp_all add: resetRunnerStatus_def step_fields)

lemma resetRunnerStatus_prev_fields:
  "socket (resetRunnerStatus_prev rs st) = socket st"
  "runnerClientStatus (runnerStatusData (resetRunnerStatus_prev rs st)) = Offline"
  by (simp_all add: resetRunnerStatus_prev_def step_fields)

lemma activateTerminal_keeps:
  "socket (snd (activateTerminal nanoid now shell ign st)) = socket st"
  "runnerStatusData (snd (activateTerminal nanoid now shell ign st)) = runnerStatusData st"
  "socket (snd (activateTerminal_prev nanoid now shell' ign st)) = socket st"
  "runnerStatusData (snd (activateTerminal_prev nanoid now shell' ign st)) = runnerStatusData st"
  by (simp_all add: activateTerminal_def activateTerminal_prev_def Let_def step_fields
        split: option.splits)

lemma terminalClosed_keeps:
  "socket (on_terminalClosed now terminalId st) = socket st"
  "runnerStatusData (on_terminalClosed now terminalId st) = runnerStatusData st"
  "socket (on_terminalClosed_prev now terminalId st) = socket st"
  "runnerStatusData (on_terminalClosed_prev now terminalId st) = runnerStatusData st"
  by (simp_all add: on_terminalClosed_def on_terminalClosed_prev_def Let_def step_fields)

lemma connectTo_offline:
  "socket (snd (connectTo a new data st)) = None \<Longrightarrow>
     socket st = None \<and> runnerStatusData (snd (connectTo a new data st))
                          = (runnerStatusData st)\<lparr>runnerStatus := Initial\<rparr>"
  by (auto simp add: connectTo_def connectTo_ask_def connectTo_answered_def
        connectTo_open_fields set_runnerStatus_fields emit_fields
        split: option.splits if_splits)

lemma connectTo_open_prev_fields:
  "socket (connectTo_open_prev new data st) = Some new"
  "connectTimers (connectTo_open_prev new data st) = connectTimers st @ [new]"
  by (simp_all add: connectTo_open_prev_def Let_def step_fields split: option.splits)

lemma connectTo_prev_offline:
  "socket (snd (connectTo_prev a new data st)) = None \<Longrightarrow>
     socket st = None \<and> runnerStatusData (snd (connectTo_prev a new data st))
                          = (runnerStatusData st)\<lparr>runnerStatus := Disconnected\<rparr>"
  by (auto simp add: connectTo_prev_def connectTo_ask_def connectTo_answered_prev_def
        connectTo_open_prev_fields set_runnerStatus_prev_def step_fields
        split: option.splits if_splits)

lemma listeners_keep_socket:
  "socket (on_disconnect st) = socket st"
  "socket (on_currentTerminals nanoid now ts st) = socket st"
  "socket (on_currentPortForwarding port st) = socket st"
  "socket (on_runnerStatus sock remoteFolderOpen status clientOS st) = socket st"
  "socket (launchRunnerClient_resume ownerRepo d st) = socket st"
  "socket (on_connect_prev sock st) = socket st"
  "socket (on_disconnect_prev sock st) = socket st"
  "socket (on_sessionTerminated_prev sock data st) = socket st"
  "socket (on_sessionStarted_prev allRunners sock data sid st) = socket st"
  "socket (on_currentTerminals_prev now ts st) = socket st"
  "socket (on_runnerStatus_prev status clientOS st) = socket st"
  by (simp_all add: on_disconnect_def resetRunnerStatus_fields on_currentTerminals_def
        activateTerminalIfNeeded_def activateTerminal_keeps on_currentPortForwarding_def
        on_runnerStatus_def launchRunnerClient_resume_def on_connect_prev_def
        on_disconnect_prev_def on_sessionTerminated_prev_def on_sessionStarted_prev_def
        sessionStarted_record_prev_fields retrieveRunnerInfo_prev_def
        resetRunnerStatus_prev_fields set_runnerStatus_prev_def on_currentTerminals_prev_def
        on_runnerStatus_prev_def Let_def step_fields emits_def split: option.splits)

lemma sessionStarted_socket:
  "socket (on_sessionStarted allRunners data sid st) = None \<Longrightarrow>
     socket st = None \<or> get_runnerClientStatus (on_sessionStarted allRunners data sid st) = Offline"
  by (auto simp add: on_sessionStarted_def Let_def get_runnerClientStatus_def
        disconnectRunner_state retrieveRunnerInfo_def step_fields sessionStarted_record_fields
        split: if_splits)

lemma timeout_offline:
  "connectTimeout_fire sock st = Some st' \<Longrightarrow> socket st' = socket st
     \<and> (get_runnerClientStatus st = Offline \<longrightarrow> get_runnerClientStatus st' = Offline)"
  "connectTimeout_fire_prev sock st = Some st' \<Longrightarrow> socket st' = socket st
     \<and> (get_runnerClientStatus st = Offline \<longrightarrow> get_runnerClientStatus st' = Offline)"
  by (auto simp add: connectTimeout_fire_def connectTimeout_fire_prev_def Let_def
        get_runnerClientStatus_def resetRunnerStatus_fields resetRunnerStatus_prev_fields
        emit_fields split: if_splits)

lemma terminate_offline:
  "socket (snd (terminate ok st)) = None \<Longrightarrow> socket st = None \<Longrightarrow>
     get_runnerClientStatus st = Offline \<Longrightarrow> get_runnerClientStatus (snd (terminate ok st)) = Offline"
  "socket (snd (terminate ok st)) = None \<Longrightarrow> socket st \<noteq> None \<Longrightarrow>
     get_runnerClientStatus (snd (terminate ok st)) = Offline"
  by (auto simp add: terminate_def Let_def get_runnerClientStatus_def disconnectRunner_state
        emit_fields split: if_splits)

lemma disconnect_prev_keeps:
  "socket (disconnect_prev st) = socket st"
  "runnerStatusData (disconnect_prev st) = runnerStatusData st"
  "socket (snd (terminate_prev ok st)) = socket st"
  "runnerStatusData (snd (terminate_prev ok st)) = runnerStatusData st"
  by (simp_all add: disconnect_prev_def terminate_prev_def Let_def step_fields
        split: option.splits)

lemma reachable_socket:
  "reachable st \<Longrightarrow> socket st = None \<Longrightarrow> get_runnerClientStatus st = Offline"
proof (induction rule: reachable.induct)
  case (reachable_new store)
  then show ?case by (simp add: new_RemoteSession_def get_runnerClientStatus_def)
next
  case (reachable_connectTo st a new data)
  from connectTo_offline [OF reachable_connectTo.prems] reachable_connectTo.IH
  show ?case by (simp add: get_runnerClientStatus_def)
next
  case (reachable_answered st a new data)
  then show ?case
    by (auto simp add: connectTo_answered_def connectTo_open_fields set_runnerStatus_fields
          get_runnerClientStatus_def split: if_splits)
next
  case (reachable_connectTimeout st sock st')
  from timeout_offline(1) [OF reachable_connectTimeout.hyps(2)] reachable_connectTimeout.IH
    reachable_connectTimeout.prems
  show ?case by simp
next
  case (reachable_connect st sock)
  then show ?case by (simp add: on_connect_fields)
next
  case (reachable_sessionStarted st sock allRunners data sid)
  from sessionStarted_socket [OF reachable_sessionStarted.prems] reachable_sessionStarted.hyps(2)
  show ?case by simp
next
  case (reachable_disconnect st sock)
  then show ?case by (simp add: listeners_keep_socket)
next
  case (reachable_sessionTerminated st sock)
  then show ?case
    by (simp add: on_sessionTerminated_def get_runnerClientStatus_def disconnectRunner_state)
next
  case (reachable_currentTerminals st sock nanoid now ts)
  then show ?case by (simp add: listeners_keep_socket)
next
  case (reachable_currentPortForwarding st sock port)
  then show ?case by (simp add: listeners_keep_socket)
next
  case (reachable_terminalClosed st sock now terminalId)
  then show ?case by (simp add: terminalClosed_keeps)
next
  case (reachable_runnerStatus st sock remoteFolderOpen status clientOS)
  then show ?case by (simp add: listeners_keep_socket)
next
  case (reachable_activateTerminal st nanoid now shell ignoreIfExists)
  then show ?case by (simp add: activateTerminal_keeps get_runnerClientStatus_def)
next
  case (reachable_terminate st ok)
  show ?case
  proof (cases "socket st")
    case None
    with reachable_terminate terminate_offline(1) [of ok st] show ?thesis by simp
  next
    case (Some s)
    with reachable_terminate terminate_offline(2) [of ok st] show ?thesis by simp
  qed
next
  case (reachable_launched st ownerRepo d)
  then show ?case
    by (simp add: launchRunnerClient_resume_def get_runnerClientStatus_def emit_fields
          split: option.splits)
next
  case (reachable_dispatched st t)
  then show ?case by (simp add: set_workflowDispatchTimeout_def get_runnerClientStatus_def)
next
  case (reachable_effect st e)
  then show ?case by (simp add: get_runnerClientStatus_def emit_fields)
next
  case (reachable_panel st b)
  then show ?case by (simp add: get_runnerClientStatus_def)
qed

lemma reachable_prev_socket:
  "reachable_prev st \<Longrightarrow> socket st = None \<Longrightarrow> get_runnerClientStatus st = Offline"
proof (induction rule: reachable_prev.induct)
  case (reachable_prev_new store)
  then show ?case by (simp add: new_RemoteSession_prev_def get_runnerClientStatus_def)
next
  case (reachable_prev_connectTo st a new data)
  from connectTo_prev_offline [OF reachable_prev_connectTo.prems] reachable_prev_connectTo.IH
  show ?case by (simp add: get_runnerClientStatus_def)
next
  case (reachable_prev_answered st a new data)
  then show ?case
    by (auto simp add: connectTo_answered_prev_def connectTo_open_prev_fields
          set_runnerStatus_prev_def step_fields get_runnerClientStatus_def split: if_splits)
next
  case (reachable_prev_connectTimeout st sock st')
  from timeout_offline(2) [OF reachable_prev_connectTimeout.hyps(2)]
    reachable_prev_connectTimeout.IH reachable_prev_connectTimeout.prems
  show ?case by simp
next
  case (reachable_prev_terminalClosed st sock now terminalId)
  then show ?case by (simp add: terminalClosed_keeps)
next
  case (reachable_prev_activateTerminal st nanoid now shell ignoreIfExists)
  then show ?case by (simp add: activateTerminal_keeps get_runnerClientStatus_def)
next
  case (reachable_prev_disconnected st)
  then show ?case by (simp add: disconnect_prev_keeps get_runnerClientStatus_def)
next
  case (reachable_prev_terminate st ok)
  then show ?case by (simp add: disconnect_prev_keeps get_runnerClientStatus_def)
next
  case (reachable_prev_effect st e)
  then show ?case by (simp add: get_runnerClientStatus_def emit_fields)
next
  case (reachable_prev_panel st b)
  then show ?case by (simp add: get_runnerClientStatus_def)
qed (simp_all add: listeners_keep_socket)

lemma example_sockets:
  "socket example_connecting = Some 1" "socket example_connected = Some 1"
  "socket (snd (connectTo_prev Continue 1 example_data (new_RemoteSession_prev Map.empty))) = Some 1"
  "socket (on_sessionStarted_prev example_runners 1 example_data ''abc'' example_connected_prev) = Some 1"
  by code_simp+

lemma example_online_reachable: "reachable example_online"
  unfolding example_online_def example_started_def example_connected_def
proof (intro reachable_runnerStatus reachable_sessionStarted reachable_connect)
  show "reachable example_connecting"
    unfolding example_connecting_def by (intro reachable_connectTo reachable_new)
  show "socket example_connecting = Some 1" by (rule example_sockets)
  show "socket (on_connect 1 example_connecting) = Some 1"
    using example_sockets(2) by (simp add: example_connected_def)
  show "socket (on_sessionStarted example_runners example_data ''abc'' (on_connect 1 example_connecting)) = Some 1"
    using example_started_holds(3) by (simp add: example_started_def example_connected_def)
qed

lemma example_online_prev_reachable: "reachable_prev example_online_prev"
  unfolding example_online_prev_def
proof (intro reachable_prev_runnerStatus reachable_prev_sessionStarted)
  show "socket (on_sessionStarted_prev example_runners 1 example_data ''abc'' example_connected_prev) = Some 1"
    by (rule example_sockets)
  show "socket example_connected_prev = Some 1" by (rule example_connected_prev_holds)
  show "reachable_prev example_connected_prev"
    unfolding example_connected_prev_def
    by (intro reachable_prev_connect reachable_prev_connectTo reachable_prev_new)
       (rule example_sockets)
qed

subsection \<open>The three ways through \<open>launchRunnerClient\<close>, and what follows its await\<close>











section \<open>The claims\<close>

subsection \<open>C1: a session-started event with another session id\<close>

text \<open>
  C1, as amended. The object holds a non-empty session id and the peer's
  session-started event carries a different one. In the revision at 292-905 the listener
  takes the path of \<^verbatim>\<open>disconnectRunner(RunnerError.SessionIdDoesNotMatch)\<close>: the error is
  recorded and delivered to the user interface as an error, the socket held is
  disconnected and forgotten, the terminals and the session data are dropped, the
  callback \<^verbatim>\<open>onDisconnected\<close> is called, and neither the object nor the status data nor
  the persisted store takes the received id. In the revision at 906-1398 the listener
  skips the event: the object is left as it was, so the received id is not recorded
  there either.
\<close>

theorem sessionStarted_mismatch:
  assumes "truthy (get_sessionId st)" and "get_sessionId st \<noteq> Some sid"
  shows "(let st' = on_sessionStarted allRunners data sid st in
            st' = disconnectRunner (Some Error_SessionIdDoesNotMatch) st
          \<and> runnerStatus (runnerStatusData st') = Initial
          \<and> runnerError (runnerStatusData st') = Some Error_SessionIdDoesNotMatch
          \<and> runnerClientStatus (runnerStatusData st') = Offline
          \<and> socket st' = None \<and> priv_terminals st' = []
          \<and> get_sessionId st' = None \<and> statusSessionId (runnerStatusData st') = None
          \<and> persisted st' = persisted st
          \<and> (case socket st of None \<Rightarrow> True
              | Some s \<Rightarrow> SocketDisconnect s \<in> set (new_effects st st'))
          \<and> notify (runnerStatusData st') TypeError
               (Some (Text ''The registered session ID for this client doesn't match. Please check your input.''))
               \<in> set (new_effects st st')
          \<and> OnDisconnected \<in> set (new_effects st st'))
       \<and> on_sessionStarted_prev allRunners sock data sid st = st"
proof -
  have path: "on_sessionStarted allRunners data sid st
                = disconnectRunner (Some Error_SessionIdDoesNotMatch) st"
    using assms by (simp add: on_sessionStarted_def)
  have skipped: "on_sessionStarted_prev allRunners sock data sid st = st"
    using assms by (simp add: on_sessionStarted_prev_def)
  let ?d = "(runnerStatusData st)\<lparr>statusSessionId := None, runnerStatus := Initial,
              runnerError := Some Error_SessionIdDoesNotMatch,
              runnerClientStatus := Offline, runnerClientOS := None\<rparr>"
  have "notify ?d TypeError
          (Some (Text ''The registered session ID for this client doesn't match. Please check your input.''))
          \<in> set (statusUpdates (st\<lparr>priv_data := None, runnerStatusData := ?d\<rparr>))"
    using statusUpdates_mismatch [of "st\<lparr>priv_data := None, runnerStatusData := ?d\<rparr>"] by simp
  then have told: "notify (runnerStatusData (disconnectRunner (Some Error_SessionIdDoesNotMatch) st)) TypeError
               (Some (Text ''The registered session ID for this client doesn't match. Please check your input.''))
               \<in> set (new_effects st (disconnectRunner (Some Error_SessionIdDoesNotMatch) st))"
    by (simp only: disconnectRunner_effects disconnectRunner_state set_append Un_iff simp_thms)
  show ?thesis
    unfolding Let_def path skipped
    using told
    by (simp add: disconnectRunner_state disconnectRunner_effects get_sessionId_def
          split: option.splits)
qed

theorem sessionStarted_mismatch_witness:
  "truthy (get_sessionId example_resumed) \<and> get_sessionId example_resumed \<noteq> Some ''xyz''
   \<and> runnerError (runnerStatusData
         (on_sessionStarted example_runners example_resume ''xyz'' example_resumed))
       = Some Error_SessionIdDoesNotMatch
   \<and> socket (on_sessionStarted example_runners example_resume ''xyz'' example_resumed) = None
   \<and> SocketDisconnect 2 \<in> set (new_effects example_resumed
         (on_sessionStarted example_runners example_resume ''xyz'' example_resumed))
   \<and> truthy (get_sessionId example_resumed_prev)
   \<and> get_sessionId example_resumed_prev \<noteq> Some ''xyz''
   \<and> on_sessionStarted_prev example_runners 2 example_resume ''xyz'' example_resumed_prev
       = example_resumed_prev"
proof -
  have h1: "truthy (get_sessionId example_resumed)"
    by (simp add: example_resumed_holds truthy_def)
  have h2: "get_sessionId example_resumed \<noteq> Some ''xyz''"
    by (simp add: example_resumed_holds)
  have h3: "truthy (get_sessionId example_resumed_prev)"
    by (simp add: example_resumed_prev_holds truthy_def)
  have h4: "get_sessionId example_resumed_prev \<noteq> Some ''xyz''"
    by (simp add: example_resumed_prev_holds)
  from sessionStarted_mismatch [OF h1 h2, of example_runners example_resume 2]
  have now: "runnerError (runnerStatusData
         (on_sessionStarted example_runners example_resume ''xyz'' example_resumed))
       = Some Error_SessionIdDoesNotMatch
   \<and> socket (on_sessionStarted example_runners example_resume ''xyz'' example_resumed) = None
   \<and> SocketDisconnect 2 \<in> set (new_effects example_resumed
         (on_sessionStarted example_runners example_resume ''xyz'' example_resumed))"
    by (auto simp add: Let_def example_resumed_holds)
  from sessionStarted_mismatch [OF h3 h4, of example_runners example_resume 2]
  have prev: "on_sessionStarted_prev example_runners 2 example_resume ''xyz'' example_resumed_prev
       = example_resumed_prev"
    by (simp add: Let_def)
  from h1 h2 h3 h4 now prev show ?thesis by blast
qed

text \<open>
  C1 as it is written fails in the revision at 906-1398: the resumed session \<open>abc\<close>
  receives the id \<open>xyz\<close>, and afterwards the socket is still held, the status is
  still \<open>Connected\<close>, no error is recorded and nothing has been done to the outside.
\<close>

theorem sessionStarted_mismatch_skipped_prev:
  "truthy (get_sessionId example_resumed_prev)
   \<and> get_sessionId example_resumed_prev \<noteq> Some ''xyz''
   \<and> socket (on_sessionStarted_prev example_runners 2 example_resume ''xyz'' example_resumed_prev)
       = Some 2
   \<and> get_runnerStatus
        (on_sessionStarted_prev example_runners 2 example_resume ''xyz'' example_resumed_prev)
       = Connected
   \<and> runnerError (runnerStatusData
        (on_sessionStarted_prev example_runners 2 example_resume ''xyz'' example_resumed_prev))
       = None
   \<and> new_effects example_resumed_prev
        (on_sessionStarted_prev example_runners 2 example_resume ''xyz'' example_resumed_prev)
       = []"
  by code_simp

subsection \<open>C2: the transport's disconnect event\<close>

text \<open>
  C2, as amended. After the listener of the transport's disconnect event has run: in
  the revision at 292-905 the runner client status is \<open>Offline\<close> and the connection
  is \<open>Disconnected\<close>, whatever the state before, and the terminals are the ones held
  before; in the revision at 906-1398 no terminal is left, whatever the state before,
  and the runner client status is \<open>Offline\<close> when the status before was
  \<open>Connected\<close> or \<open>SessionStarted\<close>, while from any other status the status data
  stay as they were.
\<close>

theorem disconnect_event_effect:
  "get_runnerClientStatus (on_disconnect st) = Offline
   \<and> connectionState (runnerStatusData (on_disconnect st)) = Spec_Disconnected
   \<and> priv_terminals (on_disconnect st) = priv_terminals st
   \<and> priv_terminals (on_disconnect_prev sock st) = []
   \<and> (get_runnerStatus st \<in> {Connected, SessionStarted} \<longrightarrow>
        get_runnerClientStatus (on_disconnect_prev sock st) = Offline
        \<and> get_runnerStatus (on_disconnect_prev sock st) = Disconnected)
   \<and> (get_runnerStatus st \<notin> {Connected, SessionStarted} \<longrightarrow>
        runnerStatusData (on_disconnect_prev sock st) = runnerStatusData st)"
proof -
  have main: "get_runnerClientStatus (on_disconnect st) = Offline
      \<and> connectionState (runnerStatusData (on_disconnect st)) = Spec_Disconnected
      \<and> priv_terminals (on_disconnect st) = priv_terminals st"
    by (simp add: on_disconnect_def op_defs connectionState_def)
  have emptied: "priv_terminals (on_disconnect_prev sock st) = []"
    by (simp add: on_disconnect_prev_def op_defs Let_def)
  have reset: "get_runnerStatus st \<in> {Connected, SessionStarted} \<Longrightarrow>
      get_runnerClientStatus (on_disconnect_prev sock st) = Offline
      \<and> get_runnerStatus (on_disconnect_prev sock st) = Disconnected"
    by (auto simp add: on_disconnect_prev_def op_defs Let_def)
  have kept: "get_runnerStatus st \<notin> {Connected, SessionStarted} \<Longrightarrow>
      runnerStatusData (on_disconnect_prev sock st) = runnerStatusData st"
    by (simp add: on_disconnect_prev_def op_defs Let_def)
  from main emptied reset kept show ?thesis by blast
qed

theorem disconnect_event_effect_witness:
  "get_runnerStatus example_online_prev \<in> {Connected, SessionStarted}
   \<and> get_runnerClientStatus example_online_prev = Online
   \<and> get_runnerClientStatus (on_disconnect_prev 1 example_online_prev) = Offline
   \<and> get_runnerStatus example_declined_prev \<notin> {Connected, SessionStarted}
   \<and> get_runnerClientStatus (on_disconnect_prev 1 example_declined_prev) = Online"
  using disconnect_event_effect [of example_online_prev 1]
    disconnect_event_effect [of example_declined_prev 1]
  by (simp add: get_runnerStatus_def get_runnerClientStatus_def
        example_online_prev_status example_declined_prev_status)

text \<open>
  C2 as it is written fails in the revision at 292-905: the session with the terminal
  \<open>T1\<close> still has it after the disconnect event.
\<close>

theorem disconnect_event_keeps_terminals:
  "priv_terminals (on_disconnect example_terminal) \<noteq> []"
  by (simp add: on_disconnect_def op_defs example_terminal_registry)

subsection \<open>C3: a new session is provisioned, a resumed one is refreshed\<close>




subsection \<open>C4: the peer's session-terminated event\<close>

text \<open>
  C4, as amended. The listener of the session-terminated event of the revision at
  292-905 is \<^verbatim>\<open>disconnectRunner(RunnerError.SessionTerminated)\<close>. It empties the
  terminals, cancels the workflow timer the object holds, disconnects and forgets the
  socket, clears the session data and the session id of the status data, and leaves the
  status \<open>Initial\<close> with the error \<open>SessionTerminated\<close>, which is the
  specification's state \<^verbatim>\<open>Terminated\<close>. The persisted store is left as it was: nothing
  is written to it. The connection timers are not touched.
\<close>

theorem sessionTerminated_effect:
  "(let st' = on_sessionTerminated st in
      persisted st' = persisted st
    \<and> (\<forall>ref d. SetSessionData ref d \<notin> set (new_effects st st'))
    \<and> priv_terminals st' = []
    \<and> (\<forall>t. priv_workflowDispatchTimeout st = Some t \<longrightarrow> t \<notin> set (workflowTimers st'))
    \<and> connectTimers st' = connectTimers st
    \<and> (\<forall>s. socket st = Some s \<longrightarrow> SocketDisconnect s \<in> set (new_effects st st'))
    \<and> socket st' = None
    \<and> get_sessionId st' = None \<and> statusSessionId (runnerStatusData st') = None
    \<and> runnerStatus (runnerStatusData st') = Initial
    \<and> runnerError (runnerStatusData st') = Some Error_SessionTerminated
    \<and> runnerClientStatus (runnerStatusData st') = Offline
    \<and> connectionState (runnerStatusData st') = Spec_Terminated)"
proof -
  have untold: "SetSessionData ref d \<notin> set (new_effects st (disconnectRunner err st))" for ref d err
    by (simp add: disconnectRunner_effects statusUpdates_only_updates split: option.splits)
  show ?thesis
    unfolding Let_def on_sessionTerminated_def
    using untold
    by (simp add: disconnectRunner_state disconnectRunner_cancels disconnectRunner_effects
          get_sessionId_def connectionState_def)
qed

theorem sessionTerminated_effect_witness:
  "priv_workflowDispatchTimeout example_dispatched = Some 7
   \<and> 7 \<in> set (workflowTimers example_dispatched)
   \<and> 7 \<notin> set (workflowTimers (on_sessionTerminated example_dispatched))
   \<and> socket example_dispatched = Some 1
   \<and> SocketDisconnect 1 \<in> set (new_effects example_dispatched (on_sessionTerminated example_dispatched))
   \<and> connectionState (runnerStatusData (on_sessionTerminated example_dispatched)) = Spec_Terminated"
  using sessionTerminated_effect [of example_dispatched]
  by (simp add: Let_def example_dispatched_holds)

text \<open>
  C4 as it is written fails on the persisted record: the session \<open>abc\<close> of the first
  run is in \<open>SessionStarted\<close>, and after the session-terminated event the store still
  holds its record.
\<close>

theorem sessionTerminated_keeps_persisted:
  "get_runnerStatus example_started = SessionStarted
   \<and> persisted (on_sessionTerminated example_started) (Some ''refs/heads/main'')
       = Some example_resume
   \<and> sessionId example_resume = Some ''abc''"
  by (simp add: on_sessionTerminated_def disconnectRunner_state example_started_holds
        example_resume_def)

subsection \<open>C5: activating a terminal\<close>

text \<open>
  C5. \<^verbatim>\<open>activateTerminal\<close>, in both revisions: while the runner client is offline it
  returns false and leaves the object and the outside as they were; when the client is
  not offline and \<^verbatim>\<open>ignoreIfExists\<close> is set and there is a terminal, it returns true
  and leaves everything as it was; otherwise it returns true, the registry is the old
  one followed by exactly one new instance, whose id is the one \<^verbatim>\<open>nanoid()\<close> made
  and which is not marked as restored, and exactly one message is sent on the socket
  held, the \<^verbatim>\<open>ActivateTerminal\<close> of that instance. An id that no terminal of the
  registry has keeps the ids of the registry distinct. In every state the object can be
  in, a runner client that is not offline means that a socket is held, so that the
  message is sent.
\<close>

theorem activateTerminal_cases:
  "(get_runnerClientStatus st = Offline \<longrightarrow>
      activateTerminal nanoid now shell ign st = (False, st)
      \<and> activateTerminal_prev nanoid now shell' ign st = (False, st))
   \<and> (get_runnerClientStatus st \<noteq> Offline \<and> ign \<and> priv_terminals st \<noteq> [] \<longrightarrow>
      activateTerminal nanoid now shell ign st = (True, st)
      \<and> activateTerminal_prev nanoid now shell' ign st = (True, st))
   \<and> (get_runnerClientStatus st \<noteq> Offline \<and> \<not> (ign \<and> priv_terminals st \<noteq> []) \<longrightarrow>
      (\<exists>t st'. activateTerminal nanoid now shell ign st = (True, st')
         \<and> priv_terminals st' = priv_terminals st @ [t]
         \<and> tid t = nanoid \<and> activateTime t = now \<and> \<not> restoredFromRemote t
         \<and> socket_messages (new_effects st st') =
              (case socket st of None \<Rightarrow> [] | Some s \<Rightarrow> [(s, ActivateTerminal t)])
         \<and> (nanoid \<notin> set (map tid (priv_terminals st)) \<and> distinct (map tid (priv_terminals st))
              \<longrightarrow> distinct (map tid (priv_terminals st'))))
      \<and> (\<exists>t st'. activateTerminal_prev nanoid now shell' ign st = (True, st')
         \<and> priv_terminals st' = priv_terminals st @ [t]
         \<and> tid t = nanoid \<and> activateTime t = now \<and> \<not> restoredFromRemote t
         \<and> socket_messages (new_effects st st') =
              (case socket st of None \<Rightarrow> [] | Some s \<Rightarrow> [(s, ActivateTerminal t)])
         \<and> (nanoid \<notin> set (map tid (priv_terminals st)) \<and> distinct (map tid (priv_terminals st))
              \<longrightarrow> distinct (map tid (priv_terminals st')))))
   \<and> (reachable st \<and> get_runnerClientStatus st \<noteq> Offline \<longrightarrow> socket st \<noteq> None)
   \<and> (reachable_prev st \<and> get_runnerClientStatus st \<noteq> Offline \<longrightarrow> socket st \<noteq> None)"
proof -
  have offline: "get_runnerClientStatus st = Offline \<Longrightarrow>
      activateTerminal nanoid now shell ign st = (False, st)
      \<and> activateTerminal_prev nanoid now shell' ign st = (False, st)"
    by (simp add: activateTerminal_def activateTerminal_prev_def)
  have skipped: "get_runnerClientStatus st \<noteq> Offline \<and> ign \<and> priv_terminals st \<noteq> [] \<Longrightarrow>
      activateTerminal nanoid now shell ign st = (True, st)
      \<and> activateTerminal_prev nanoid now shell' ign st = (True, st)"
    by (simp add: activateTerminal_def activateTerminal_prev_def)
  have appended: "\<exists>t st'. activateTerminal nanoid now shell ign st = (True, st')
         \<and> priv_terminals st' = priv_terminals st @ [t]
         \<and> tid t = nanoid \<and> activateTime t = now \<and> \<not> restoredFromRemote t
         \<and> socket_messages (new_effects st st') =
              (case socket st of None \<Rightarrow> [] | Some s \<Rightarrow> [(s, ActivateTerminal t)])
         \<and> (nanoid \<notin> set (map tid (priv_terminals st)) \<and> distinct (map tid (priv_terminals st))
              \<longrightarrow> distinct (map tid (priv_terminals st')))"
    if "get_runnerClientStatus st \<noteq> Offline \<and> \<not> (ign \<and> priv_terminals st \<noteq> [])"
  proof -
    from that obtain t st' where r: "activateTerminal nanoid now shell ign st = (True, st')"
        "priv_terminals st' = priv_terminals st @ [t]"
        "tid t = nanoid" "activateTime t = now" "\<not> restoredFromRemote t"
        "socket_messages (new_effects st st') =
              (case socket st of None \<Rightarrow> [] | Some s \<Rightarrow> [(s, ActivateTerminal t)])"
      using activateTerminal_appends [of st ign nanoid now shell] by blast
    have "nanoid \<notin> set (map tid (priv_terminals st)) \<and> distinct (map tid (priv_terminals st))
              \<longrightarrow> distinct (map tid (priv_terminals st'))"
      by (simp add: r(2,3))
    with r show ?thesis by blast
  qed
  have appended_prev: "\<exists>t st'. activateTerminal_prev nanoid now shell' ign st = (True, st')
         \<and> priv_terminals st' = priv_terminals st @ [t]
         \<and> tid t = nanoid \<and> activateTime t = now \<and> \<not> restoredFromRemote t
         \<and> socket_messages (new_effects st st') =
              (case socket st of None \<Rightarrow> [] | Some s \<Rightarrow> [(s, ActivateTerminal t)])
         \<and> (nanoid \<notin> set (map tid (priv_terminals st)) \<and> distinct (map tid (priv_terminals st))
              \<longrightarrow> distinct (map tid (priv_terminals st')))"
    if "get_runnerClientStatus st \<noteq> Offline \<and> \<not> (ign \<and> priv_terminals st \<noteq> [])"
  proof -
    from that obtain t st' where r: "activateTerminal_prev nanoid now shell' ign st = (True, st')"
        "priv_terminals st' = priv_terminals st @ [t]"
        "tid t = nanoid" "activateTime t = now" "\<not> restoredFromRemote t"
        "socket_messages (new_effects st st') =
              (case socket st of None \<Rightarrow> [] | Some s \<Rightarrow> [(s, ActivateTerminal t)])"
      using activateTerminal_prev_appends [of st ign nanoid now shell'] by blast
    have "nanoid \<notin> set (map tid (priv_terminals st)) \<and> distinct (map tid (priv_terminals st))
              \<longrightarrow> distinct (map tid (priv_terminals st'))"
      by (simp add: r(2,3))
    with r show ?thesis by blast
  qed
  have held: "reachable st \<and> get_runnerClientStatus st \<noteq> Offline \<Longrightarrow> socket st \<noteq> None"
    using reachable_socket [of st] by blast
  have held_prev: "reachable_prev st \<and> get_runnerClientStatus st \<noteq> Offline \<Longrightarrow> socket st \<noteq> None"
    using reachable_prev_socket [of st] by blast
  from offline skipped appended appended_prev held held_prev show ?thesis by blast
qed

theorem activateTerminal_cases_witness:
  "get_runnerClientStatus example_started = Offline
   \<and> activateTerminal ''T1'' 0 None False example_started = (False, example_started)
   \<and> get_runnerClientStatus example_terminal \<noteq> Offline \<and> priv_terminals example_terminal \<noteq> []
   \<and> activateTerminal ''T2'' 5 None True example_terminal = (True, example_terminal)
   \<and> reachable example_online
   \<and> get_runnerClientStatus example_online \<noteq> Offline \<and> priv_terminals example_online = []
   \<and> (\<exists>t st'. activateTerminal ''T1'' 0 None True example_online = (True, st')
         \<and> priv_terminals st' = [t] \<and> tid t = ''T1''
         \<and> socket_messages (new_effects example_online st') = [(1, ActivateTerminal t)]
         \<and> distinct (map tid (priv_terminals st')))
   \<and> reachable_prev example_online_prev
   \<and> get_runnerClientStatus example_online_prev \<noteq> Offline
   \<and> (\<exists>t st'. activateTerminal_prev ''T1'' 0 ''bash'' True example_online_prev = (True, st')
         \<and> priv_terminals st' = [t] \<and> tid t = ''T1''
         \<and> socket_messages (new_effects example_online_prev st') = [(1, ActivateTerminal t)])
   \<and> socket example_online \<noteq> None \<and> socket example_online_prev \<noteq> None"
proof -
  note offline = activateTerminal_cases
    [of example_started "''T1''" 0 None False "''bash''", THEN conjunct1, rule_format]
  note skipped = activateTerminal_cases
    [of example_terminal "''T2''" 5 None True "''bash''", THEN conjunct2, THEN conjunct1, rule_format]
  note appended = activateTerminal_cases
    [of example_online "''T1''" 0 None True "''bash''", THEN conjunct2, THEN conjunct2,
     THEN conjunct1, rule_format, THEN conjunct1]
  note appended_prev = activateTerminal_cases
    [of example_online_prev "''T1''" 0 None True "''bash''", THEN conjunct2, THEN conjunct2,
     THEN conjunct1, rule_format, THEN conjunct2]
  note held = activateTerminal_cases
    [of example_online "''T1''" 0 None True "''bash''", THEN conjunct2, THEN conjunct2,
     THEN conjunct2, THEN conjunct1, rule_format]
  note held_prev = activateTerminal_cases
    [of example_online_prev "''T1''" 0 None True "''bash''", THEN conjunct2, THEN conjunct2,
     THEN conjunct2, THEN conjunct2, rule_format]
  have h1: "get_runnerClientStatus example_started = Offline"
    by (rule example_started_offline)
  have h2: "get_runnerClientStatus example_terminal \<noteq> Offline \<and> True \<and> priv_terminals example_terminal \<noteq> []"
    by (simp add: example_terminal_holds example_terminal_registry)
  have h3: "get_runnerClientStatus example_online \<noteq> Offline \<and> \<not> (True \<and> priv_terminals example_online \<noteq> [])"
    by (simp add: example_online_holds)
  have h4: "get_runnerClientStatus example_online_prev \<noteq> Offline
            \<and> \<not> (True \<and> priv_terminals example_online_prev \<noteq> [])"
    by (simp add: example_online_prev_holds)
  have h5: "reachable example_online \<and> get_runnerClientStatus example_online \<noteq> Offline"
    using example_online_reachable h3 by simp
  have h6: "reachable_prev example_online_prev \<and> get_runnerClientStatus example_online_prev \<noteq> Offline"
    using example_online_prev_reachable h4 by simp
  from appended [OF h3] have a: "\<exists>t st'. activateTerminal ''T1'' 0 None True example_online = (True, st')
         \<and> priv_terminals st' = [t] \<and> tid t = ''T1''
         \<and> socket_messages (new_effects example_online st') = [(1, ActivateTerminal t)]
         \<and> distinct (map tid (priv_terminals st'))"
    by (simp add: example_online_holds) blast
  from appended_prev [OF h4] have b: "\<exists>t st'. activateTerminal_prev ''T1'' 0 ''bash'' True example_online_prev = (True, st')
         \<and> priv_terminals st' = [t] \<and> tid t = ''T1''
         \<and> socket_messages (new_effects example_online_prev st') = [(1, ActivateTerminal t)]"
    by (simp add: example_online_prev_holds) blast
  from offline [OF h1] skipped [OF h2] a b held [OF h5] held_prev [OF h6] h1 h2 h3 h4 h5 h6
  show ?thesis by simp
qed

subsection \<open>C6: the connection timer fires\<close>



subsection \<open>C7: the timers that are armed\<close>

text \<open>
  C7, as amended, in the revision at 292-905. The connection timers are per call of
  \<^verbatim>\<open>connectTo\<close>: a call that goes ahead arms the timer of its new socket and cancels
  none of those armed; a socket's timer is disarmed by that socket's connect event and
  by its own firing, and a timer that fires outside the statuses \<open>Initial\<close>,
  \<open>Connecting\<close> and \<open>Connected\<close> does nothing else. For the workflow timer,
  \<^verbatim>\<open>launchRunnerClient\<close>, when it goes on to the provisioning, first cancels the timer
  whose handle the object holds; so if no workflow timer other than the held one was
  armed, then after the dispatcher has armed its timer exactly that one is armed.
\<close>

theorem timers_armed:
  "connectTimers (connectTo_open new data st) = connectTimers st @ [new]
   \<and> connectTimers (on_connect sock st) = removeAll sock (connectTimers st)
   \<and> (sock \<in> set (connectTimers st) \<longrightarrow>
        (case connectTimeout_fire sock st of
           None \<Rightarrow> False
         | Some st' \<Rightarrow> connectTimers st' = removeAll sock (connectTimers st)
             \<and> (get_runnerStatus st \<notin> {Initial, Connecting, Connected} \<longrightarrow>
                   st' = st\<lparr>connectTimers := removeAll sock (connectTimers st)\<rparr>)))
   \<and> (launch_data_sufficient allRunners (priv_data st) \<longrightarrow>
        new_effects st (launchRunnerClient allRunners st) =
          (case priv_workflowDispatchTimeout st of
             None \<Rightarrow> [] | Some t \<Rightarrow> [ClearWorkflowTimeout t]) @ [SetupRunnerClientRepo]
      \<and> (\<forall>t. priv_workflowDispatchTimeout st = Some t \<longrightarrow>
             t \<notin> set (workflowTimers (launchRunnerClient allRunners st)))
      \<and> (set (workflowTimers st) \<subseteq> set_option (priv_workflowDispatchTimeout st) \<longrightarrow>
             workflowTimers (set_workflowDispatchTimeout t'
                (launchRunnerClient allRunners st)) = [t']))"
proof -
  have fire: "sock \<in> set (connectTimers st) \<Longrightarrow>
        (case connectTimeout_fire sock st of
           None \<Rightarrow> False
         | Some st' \<Rightarrow> connectTimers st' = removeAll sock (connectTimers st)
             \<and> (get_runnerStatus st \<notin> {Initial, Connecting, Connected} \<longrightarrow>
                   st' = st\<lparr>connectTimers := removeAll sock (connectTimers st)\<rparr>))"
    by (simp add: connectTimeout_fire_def Let_def get_runnerStatus_def resetRunnerStatus_def
          step_fields)
  have launch: "new_effects st (launchRunnerClient allRunners st) =
          (case priv_workflowDispatchTimeout st of
             None \<Rightarrow> [] | Some t \<Rightarrow> [ClearWorkflowTimeout t]) @ [SetupRunnerClientRepo]
      \<and> (\<forall>t. priv_workflowDispatchTimeout st = Some t \<longrightarrow>
             t \<notin> set (workflowTimers (launchRunnerClient allRunners st)))
      \<and> (set (workflowTimers st) \<subseteq> set_option (priv_workflowDispatchTimeout st) \<longrightarrow>
             workflowTimers (set_workflowDispatchTimeout t'
                (launchRunnerClient allRunners st)) = [t'])"
    if "launch_data_sufficient allRunners (priv_data st)"
    using that
    by (auto simp add: launch_data_sufficient_def launchRunnerClient_def data_serverAddress_def
          clearWorkflowDispatchTimeoutIfNeeded_def set_workflowDispatchTimeout_def
          new_effects_def emit_def removeAll_only
          split: option.splits)
  from fire launch show ?thesis
    by (simp add: connectTo_open_fields on_connect_fields)
qed

theorem timers_armed_witness:
  "connectTimers example_twice = [1, 2]
   \<and> 1 \<in> set (connectTimers example_twice)
   \<and> (case connectTimeout_fire 1 example_twice of
         None \<Rightarrow> False | Some st' \<Rightarrow> connectTimers st' = [2])
   \<and> launch_data_sufficient example_runners (priv_data example_dispatched)
   \<and> priv_workflowDispatchTimeout example_dispatched = Some 7
   \<and> set (workflowTimers example_dispatched) \<subseteq> set_option (priv_workflowDispatchTimeout example_dispatched)
   \<and> 7 \<notin> set (workflowTimers (launchRunnerClient example_runners example_dispatched))
   \<and> workflowTimers (set_workflowDispatchTimeout 8
        (launchRunnerClient example_runners example_dispatched)) = [8]"
proof -
  note fire = timers_armed
    [of 2 example_data example_connecting 1 example_runners 8, THEN conjunct2, THEN conjunct2,
     THEN conjunct1, rule_format]
  note launch = timers_armed
    [of 2 example_data example_dispatched 1 example_runners 8, THEN conjunct2, THEN conjunct2,
     THEN conjunct2, rule_format]
  have h1: "1 \<in> set (connectTimers example_twice)"
    by (simp add: example_twice_holds)
  have h2: "launch_data_sufficient example_runners (priv_data example_dispatched)"
    by code_simp
  have h3: "set (workflowTimers example_dispatched) \<subseteq> set_option (priv_workflowDispatchTimeout example_dispatched)"
    by (simp add: example_dispatched_holds)
  have twice: "example_twice = connectTo_open 2 example_data example_connecting"
    by (simp add: example_twice_def connectTo_def connectTo_ask_def connectTo_answered_def
          example_connecting_def new_RemoteSession_def session_conflict_def getSessionData_def
          connectTo_open_fields split: option.splits)
  from timers_armed [of 2 example_data example_connecting 1 example_runners 8, THEN conjunct1]
  have armed: "connectTimers example_twice = [1, 2]"
    by (simp add: twice example_connecting_holds)
  note fire2 = timers_armed
    [of 2 example_data example_twice 1 example_runners 8, THEN conjunct2, THEN conjunct2,
     THEN conjunct1, rule_format, OF h1]
  from fire2 have fired: "(case connectTimeout_fire 1 example_twice of
         None \<Rightarrow> False | Some st' \<Rightarrow> connectTimers st' = [2])"
    by (auto simp add: example_twice_holds split: option.splits)
  from launch [OF h2] h3 have l: "7 \<notin> set (workflowTimers (launchRunnerClient example_runners example_dispatched))"
      "workflowTimers (set_workflowDispatchTimeout 8
        (launchRunnerClient example_runners example_dispatched)) = [8]"
    by (auto simp add: example_dispatched_holds)
  from armed h1 fired h2 h3 l show ?thesis
    by (simp add: example_dispatched_holds)
qed

text \<open>
  C7 as it is written fails for the connection timers: after two calls of
  \<^verbatim>\<open>connectTo\<close> in succession two connection timers are armed, and both fire and
  resolve their promise with false.
\<close>

theorem timers_armed_twice:
  "connectTimers example_twice = [1, 2]
   \<and> (case connectTimeout_fire 1 example_twice of
         None \<Rightarrow> False
       | Some s \<Rightarrow>
           (case connectTimeout_fire 2 s of
              None \<Rightarrow> False
            | Some s' \<Rightarrow> filter (\<lambda>e. e = Resolve 1 False \<or> e = Resolve 2 False) (trace s')
                           = [Resolve 1 False, Resolve 2 False]))"
  by code_simp

subsection \<open>C8: the prompt before a connection replaces a persisted session\<close>

text \<open>
  C8, in the revision at 292-905. When the store holds, for the reference of the
  requested session, a session with a non-empty id other than the requested one,
  \<^verbatim>\<open>connectTo\<close> asks the user before it does anything else: the prompt is the only
  effect before the answer and the first effect of the call. If the answer is not
  "Continue", the call returns false, and the store, the socket, the session data, the
  terminals and the timers are as before, nothing is written to the store, and nothing
  is done on the transport: no socket is made or closed and no message is sent, so the
  old session is not terminated. The same holds of the part of the method that follows
  the answer, whatever state \<open>later\<close> the object is in when the answer comes.
\<close>

theorem connectTo_conflict_prompt:
  assumes "session_conflict data st = Some existing"
  shows "connectTo_ask data st = Some (emit (ShowInformationMessage (githubRef data) existing) st)
       \<and> (\<exists>rest. new_effects st (snd (connectTo a new data st))
             = ShowInformationMessage (githubRef data) existing # rest)
       \<and> (a \<noteq> Continue \<longrightarrow>
            (let st' = snd (connectTo a new data st) in
               fst (connectTo a new data st) = Some False
             \<and> persisted st' = persisted st
             \<and> (\<forall>ref d. SetSessionData ref d \<notin> set (new_effects st st'))
             \<and> transport_effects (new_effects st st') = []
             \<and> socket st' = socket st \<and> priv_data st' = priv_data st
             \<and> priv_terminals st' = priv_terminals st
             \<and> connectTimers st' = connectTimers st \<and> workflowTimers st' = workflowTimers st))
       \<and> (a \<noteq> Continue \<longrightarrow>
            (let st' = snd (connectTo_answered a new data later) in
               fst (connectTo_answered a new data later) = Some False
             \<and> persisted st' = persisted later
             \<and> (\<forall>ref d. SetSessionData ref d \<notin> set (new_effects later st'))
             \<and> transport_effects (new_effects later st') = []
             \<and> socket st' = socket later))"
proof -
  let ?asked = "emit (ShowInformationMessage (githubRef data) existing) st"
  have ask: "connectTo_ask data st = Some ?asked"
    using assms by (simp add: connectTo_ask_def)
  have first: "\<exists>rest. new_effects st (snd (connectTo a new data st))
             = ShowInformationMessage (githubRef data) existing # rest"
  proof (cases "a = Continue")
    case True
    obtain es where "trace (connectTo_open new data ?asked) = trace ?asked @ es"
      using connectTo_open_trace by blast
    then show ?thesis
      using True by (simp add: connectTo_def ask connectTo_answered_def new_effects_def emit_fields)
  next
    case False
    then show ?thesis
      by (simp add: connectTo_def ask connectTo_answered_def new_effects_def emit_fields
            set_runnerStatus_fields)
  qed
  have declined: "a \<noteq> Continue \<Longrightarrow>
            (let st' = snd (connectTo a new data st) in
               fst (connectTo a new data st) = Some False
             \<and> persisted st' = persisted st
             \<and> (\<forall>ref d. SetSessionData ref d \<notin> set (new_effects st st'))
             \<and> transport_effects (new_effects st st') = []
             \<and> socket st' = socket st \<and> priv_data st' = priv_data st
             \<and> priv_terminals st' = priv_terminals st
             \<and> connectTimers st' = connectTimers st \<and> workflowTimers st' = workflowTimers st)"
    by (simp add: connectTo_def ask connectTo_answered_def new_effects_def emit_fields
          set_runnerStatus_fields filter_simps statusUpdates_quiet statusUpdates_only_updates)
  have resumed: "a \<noteq> Continue \<Longrightarrow>
            (let st' = snd (connectTo_answered a new data later) in
               fst (connectTo_answered a new data later) = Some False
             \<and> persisted st' = persisted later
             \<and> (\<forall>ref d. SetSessionData ref d \<notin> set (new_effects later st'))
             \<and> transport_effects (new_effects later st') = []
             \<and> socket st' = socket later)"
    by (simp add: connectTo_answered_def new_effects_def
          set_runnerStatus_fields filter_simps statusUpdates_quiet statusUpdates_only_updates)
  from ask first declined resumed show ?thesis by blast
qed

theorem connectTo_conflict_prompt_witness:
  "session_conflict example_data example_running = Some (Some ''abc'')
   \<and> fst (connectTo Dismissed 3 example_data example_running) = Some False
   \<and> persisted (snd (connectTo Dismissed 3 example_data example_running)) (Some ''refs/heads/main'')
       = Some example_resume
   \<and> socket (snd (connectTo Dismissed 3 example_data example_running)) = Some 2
   \<and> transport_effects (new_effects example_running
        (snd (connectTo Dismissed 3 example_data example_running))) = []"
  using connectTo_conflict_prompt [OF example_running_holds(1), of Dismissed 3 example_running]
  by (simp add: Let_def example_running_holds)

subsection \<open>C9: a terminal that closes soon after its activation\<close>

text \<open>
  C9, as amended. The terminal-closed listener of the revision at 292-905 compares the
  time since the activation, cut to whole seconds, with the threshold 3. So for an
  instance in the registry (the first with the id), the instance is removed together
  with any other of that id, and the warning is shown exactly when fewer than 4000
  milliseconds have passed since the activation; from 4 seconds on no warning is shown.
\<close>

theorem terminalClosed_warning:
  "find (\<lambda>t. tid t = terminalId) (priv_terminals st) = Some t \<Longrightarrow>
     (let st' = on_terminalClosed now terminalId st in
        priv_terminals st' = filter (\<lambda>t. tid t \<noteq> terminalId) (priv_terminals st)
      \<and> terminalId \<notin> set (map tid (priv_terminals st'))
      \<and> warnings (new_effects st st') =
          (if now - activateTime t < 4000 then [terminalClosedWarning] else []))"
  by (auto simp add: Let_def on_terminalClosed_result closed_within_threshold_found)

theorem terminalClosed_warning_witness:
  "find (\<lambda>t. tid t = ''T1'') (priv_terminals example_terminal) =
     Some \<lparr>tid = ''T1'', shellFile = GetDefaultShell (Some ''linux''), cols = 80, rows = 30,
           activateTime = 0, restoredFromRemote = False\<rparr>
   \<and> priv_terminals (on_terminalClosed 2000 ''T1'' example_terminal) = []
   \<and> warnings (new_effects example_terminal (on_terminalClosed 2000 ''T1'' example_terminal))
       = [terminalClosedWarning]
   \<and> priv_terminals (on_terminalClosed 4000 ''T1'' example_terminal) = []
   \<and> warnings (new_effects example_terminal (on_terminalClosed 4000 ''T1'' example_terminal)) = []"
  using terminalClosed_warning [OF example_terminal_found, of 2000]
    terminalClosed_warning [OF example_terminal_found, of 4000]
  by (simp add: Let_def example_terminal_found example_terminal_registry)

text \<open>
  C9 as it is written fails between the third and the fourth second: the terminal
  \<open>T1\<close> was activated at instant 0 and its closing is notified at 3500 milliseconds,
  after the threshold of 3 seconds, and the warning is shown.
\<close>

theorem terminalClosed_warning_after_threshold:
  "map activateTime (priv_terminals example_terminal) = [0]
   \<and> (3500::int) - 0 > terminalLiveThreshold * 1000
   \<and> warnings (new_effects example_terminal (on_terminalClosed 3500 ''T1'' example_terminal))
       = [terminalClosedWarning]
   \<and> priv_terminals (on_terminalClosed 3500 ''T1'' example_terminal) = []"
proof -
  have within: "closed_within_threshold 3500 ''T1'' (priv_terminals example_terminal)"
    by (simp add: closed_within_threshold_found [OF example_terminal_found])
  have gone: "priv_terminals (on_terminalClosed 3500 ''T1'' example_terminal) = []"
    by (simp add: on_terminalClosed_result example_terminal_registry)
  from within gone show ?thesis
    by (simp add: on_terminalClosed_result example_terminal_registry terminalLiveThreshold_def)
qed

subsection \<open>C10: a terminal-closed notification for an unknown terminal\<close>

text \<open>
  C10. When no terminal of the registry has the id of a terminal-closed notification,
  the registry is left as it was and the warning is shown all the same: nothing is
  found, the difference falls back to \<open>0\<close>, and \<open>0\<close> is at least minus the
  threshold. This holds in both revisions.
\<close>

theorem terminalClosed_unknown:
  "terminalId \<notin> set (map tid (priv_terminals st)) \<Longrightarrow>
     find (\<lambda>t. tid t = terminalId) (priv_terminals st) = None
   \<and> (0::int) \<ge> - terminalLiveThreshold
   \<and> priv_terminals (on_terminalClosed now terminalId st) = priv_terminals st
   \<and> warnings (new_effects st (on_terminalClosed now terminalId st)) = [terminalClosedWarning]
   \<and> priv_terminals (on_terminalClosed_prev now terminalId st) = priv_terminals st
   \<and> warnings (new_effects st (on_terminalClosed_prev now terminalId st))
       = [terminalClosedWarning_prev]"
proof -
  assume missing: "terminalId \<notin> set (map tid (priv_terminals st))"
  then have same: "filter (\<lambda>t. tid t \<noteq> terminalId) (priv_terminals st) = priv_terminals st"
    by (auto simp add: filter_id_conv)
  from missing have none: "find (\<lambda>t. tid t = terminalId) (priv_terminals st) = None"
    by (auto simp add: find_None_iff)
  from missing same none show ?thesis
    by (simp add: on_terminalClosed_result on_terminalClosed_prev_result
          closed_within_threshold_missing terminalLiveThreshold_def)
qed

theorem terminalClosed_unknown_witness:
  "''T9'' \<notin> set (map tid (priv_terminals example_terminal))
   \<and> priv_terminals (on_terminalClosed 100000 ''T9'' example_terminal)
       = priv_terminals example_terminal
   \<and> priv_terminals example_terminal \<noteq> []
   \<and> warnings (new_effects example_terminal (on_terminalClosed 100000 ''T9'' example_terminal))
       = [terminalClosedWarning]
   \<and> warnings (new_effects example_terminal (on_terminalClosed_prev 100000 ''T9'' example_terminal))
       = [terminalClosedWarning_prev]"
proof -
  have h: "''T9'' \<notin> set (map tid (priv_terminals example_terminal))"
    by (simp add: example_terminal_registry)
  show ?thesis
    using h terminalClosed_unknown [OF h, of 100000]
    by (simp add: example_terminal_registry)
qed

end
